theory Spec2Isabelle
  imports Complex_Main
begin

section \<open>The ledger of the point-of-sale server\<close>

text \<open>
  A shallow embedding of the HTTP handlers of the server (the file that opens
  \<^verbatim>\<open>business.db\<close> with better-sqlite3 and registers the \<^verbatim>\<open>/api/...\<close> routes).
  The database is a record of five tables, each a list of rows in insertion order; a
  handler is a function from the database before the request to the response and the
  database after it.

  Scope of the embedding.
  \<^item> Request fields have the JSON types the schema names: quantities, stocks and ids are
    integers (\<open>int\<close>), prices and totals are numbers (\<open>rat\<close>; the server stores them and
    never computes with them), names, movement types and payment methods are strings.
    A request whose fields have other JSON types is outside the embedding.
  \<^item> The server's numbers are IEEE doubles (JavaScript numbers, and SQLite arithmetic on a
    bound parameter). The embedding adds and subtracts in \<open>int\<close>, which is what the code
    computes as long as the operands and the result are safe integers (\<open>safe_integer\<close>:
    magnitude at most \<open>2 ^ 53 - 1\<close>, JavaScript's \<open>Number.MAX_SAFE_INTEGER\<close>); beyond
    that range the code rounds and the embedding does not. Where a claim's theorem
    states the value of a sum or a difference of arbitrary operands, it carries that
    bound.
  \<^item> \<open>CURRENT_TIMESTAMP\<close> and \<open>new Date()\<close> are the parameter \<open>now\<close> of a handler.
  \<^item> \<open>INTEGER PRIMARY KEY AUTOINCREMENT\<close>: no handler deletes a row, so the next rowid
    is one more than the largest rowid of the table (\<open>next_rowid\<close>).
  \<^item> A failure of the storage layer itself (disk, locking) is not modelled; the
    \<open>CHECK\<close> constraints of the schema are.
\<close>

subsection \<open>Rows\<close>

record session =
  s_id :: int
  s_start_time :: nat
  s_end_time :: "nat option"
  s_is_closed :: int

record product =
  p_id :: int
  p_name :: string
  p_price :: rat
  p_stock :: int
  p_initial_stock :: int
  p_deleted :: int
  p_image :: "string option"

record movement =
  m_id :: int
  m_session_id :: int
  m_product_id :: int
  m_type :: string
  m_quantity :: int
  m_reason :: "string option"
  m_timestamp :: nat

record sale =
  sale_id :: int
  sale_session_id :: int
  sale_total :: rat
  sale_payment_method :: string
  sale_timestamp :: nat

record sale_item =
  si_id :: int
  si_sale_id :: int
  si_product_id :: int
  si_quantity :: int
  si_price_at_sale :: rat

text \<open>An element of \<open>req.body.items\<close>; the sale handler reads these four fields.\<close>

record item =
  item_id :: int
  item_name :: string
  item_quantity :: int
  item_price :: rat

record db =
  sessions :: "session list"
  products :: "product list"
  movements :: "movement list"
  sales :: "sale list"
  sale_items :: "sale_item list"

definition empty_db :: db where
  "empty_db = \<lparr>sessions = [], products = [], movements = [], sales = [], sale_items = []\<rparr>"

text \<open>A response that is not a success: the HTTP status and the \<open>error\<close> text.\<close>

datatype error = HttpError nat string

subsection \<open>Numbers\<close>


subsection \<open>Statements\<close>

definition next_rowid :: "int list \<Rightarrow> int" where
  "next_rowid ids = fold max ids 0 + 1"

text \<open>\<open>SELECT * FROM sessions WHERE is_closed = 0 ORDER BY id DESC LIMIT 1\<close>\<close>

fun latest_open :: "session list \<Rightarrow> session option" where
  "latest_open [] = None"
| "latest_open (s # ss) =
     (case latest_open ss of
        None \<Rightarrow> (if s_is_closed s = 0 then Some s else None)
      | Some t \<Rightarrow> (if s_is_closed s = 0 \<and> s_id t < s_id s then Some s else Some t))"

text \<open>\<open>INSERT INTO sessions (is_closed) VALUES (0)\<close>; the result is the new rowid.\<close>

definition insert_session :: "db \<Rightarrow> nat \<Rightarrow> int \<times> db" where
  "insert_session d now =
     (let i = next_rowid (map s_id (sessions d))
      in (i, d\<lparr>sessions := sessions d @
            [\<lparr>s_id = i, s_start_time = now, s_end_time = None, s_is_closed = 0\<rparr>]\<rparr>))"

text \<open>\<open>SELECT stock FROM products WHERE id = ?\<close> with \<open>.get\<close>: the first row, if any.\<close>

definition select_product :: "db \<Rightarrow> int \<Rightarrow> product option" where
  "select_product d i = find (\<lambda>p. p_id p = i) (products d)"

text \<open>\<open>UPDATE products SET ... WHERE id = ?\<close>: every matching row; \<open>changes\<close> counts them.\<close>

definition update_products :: "db \<Rightarrow> int \<Rightarrow> (product \<Rightarrow> product) \<Rightarrow> db" where
  "update_products d i f = d\<lparr>products := map (\<lambda>p. if p_id p = i then f p else p) (products d)\<rparr>"

definition changes :: "db \<Rightarrow> int \<Rightarrow> nat" where
  "changes d i = length (filter (\<lambda>p. p_id p = i) (products d))"

definition insert_movement :: "db \<Rightarrow> nat \<Rightarrow> int \<Rightarrow> int \<Rightarrow> string \<Rightarrow> int \<Rightarrow> string option \<Rightarrow> db" where
  "insert_movement d now sid pid ty q reason =
     d\<lparr>movements := movements d @
        [\<lparr>m_id = next_rowid (map m_id (movements d)), m_session_id = sid, m_product_id = pid,
          m_type = ty, m_quantity = q, m_reason = reason, m_timestamp = now\<rparr>]\<rparr>"

definition insert_sale_item :: "db \<Rightarrow> int \<Rightarrow> int \<Rightarrow> int \<Rightarrow> rat \<Rightarrow> db" where
  "insert_sale_item d sale pid q price =
     d\<lparr>sale_items := sale_items d @
        [\<lparr>si_id = next_rowid (map si_id (sale_items d)), si_sale_id = sale,
          si_product_id = pid, si_quantity = q, si_price_at_sale = price\<rparr>]\<rparr>"

definition insert_sale :: "db \<Rightarrow> nat \<Rightarrow> int \<Rightarrow> rat \<Rightarrow> string \<Rightarrow> int \<times> db" where
  "insert_sale d now sid total' pm =
     (let i = next_rowid (map sale_id (sales d))
      in (i, d\<lparr>sales := sales d @
            [\<lparr>sale_id = i, sale_session_id = sid, sale_total = total',
              sale_payment_method = pm, sale_timestamp = now\<rparr>]\<rparr>))"

subsection \<open>Sessions\<close>

text \<open>
  \<open>getCurrentSession\<close>: the open session with the largest id, or a new one when none is
  open. The new row is written at once (the statement runs outside any transaction).
\<close>

definition getCurrentSession :: "db \<Rightarrow> nat \<Rightarrow> session \<times> db" where
  "getCurrentSession d now =
     (case latest_open (sessions d) of
        Some s \<Rightarrow> (s, d)
      | None \<Rightarrow>
          (let (i, d') = insert_session d now
           in (\<lparr>s_id = i, s_start_time = now, s_end_time = None, s_is_closed = 0\<rparr>, d')))"

text \<open>\<open>POST /api/sessions/close\<close>: one transaction; the result is \<open>(closed_id, new_id)\<close>.\<close>

definition closeSession :: "db \<Rightarrow> nat \<Rightarrow> (int \<times> int) \<times> db" where
  "closeSession d now =
     (let (session, d1) = getCurrentSession d now;
          d2 = d1\<lparr>sessions :=
                 map (\<lambda>s. if s_id s = s_id session
                           then s\<lparr>s_is_closed := 1, s_end_time := Some now\<rparr> else s)
                     (sessions d1)\<rparr>;
          (new_id, d3) = insert_session d2 now
      in ((s_id session, new_id), d3))"

definition open_sessions :: "db \<Rightarrow> session list" where
  "open_sessions d = filter (\<lambda>s. s_is_closed s = 0) (sessions d)"

subsection \<open>Products\<close>

text \<open>\<open>GET /api/products\<close>\<close>

definition listProducts :: "db \<Rightarrow> product list" where
  "listProducts d = filter (\<lambda>p. p_deleted p = 0) (products d)"

text \<open>\<open>POST /api/products\<close>: the row is inserted as given; the result is its id.\<close>

definition addProduct :: "db \<Rightarrow> string \<Rightarrow> rat \<Rightarrow> int \<Rightarrow> int \<times> db" where
  "addProduct d name price initial_stock =
     (let i = next_rowid (map p_id (products d))
      in (i, d\<lparr>products := products d @
            [\<lparr>p_id = i, p_name = name, p_price = price, p_stock = initial_stock,
              p_initial_stock = initial_stock, p_deleted = 0, p_image = None\<rparr>]\<rparr>))"

text \<open>
  \<open>PUT /api/products/:id\<close>. The first argument is \<open>parseInt(req.params.id)\<close>, with
  \<open>None\<close> for \<open>NaN\<close>. A success carries \<open>result.changes\<close>.
\<close>

definition updateProduct :: "db \<Rightarrow> int option \<Rightarrow> string \<Rightarrow> rat \<Rightarrow> int \<Rightarrow> (error + nat) \<times> db" where
  "updateProduct d id' name price stock =
     (case id' of
        None \<Rightarrow> (Inl (HttpError 400 ''Invalid product ID''), d)
      | Some i \<Rightarrow>
          (Inr (changes d i),
           update_products d i (\<lambda>p. p\<lparr>p_name := name, p_price := price, p_stock := stock\<rparr>)))"

text \<open>\<open>DELETE /api/products/:id\<close>\<close>

definition softDeleteProduct :: "db \<Rightarrow> int option \<Rightarrow> (error + nat) \<times> db" where
  "softDeleteProduct d id' =
     (case id' of
        None \<Rightarrow> (Inl (HttpError 400 ''Invalid product ID''), d)
      | Some i \<Rightarrow> (Inr (changes d i), update_products d i (\<lambda>p. p\<lparr>p_deleted := 1\<rparr>)))"

subsection \<open>Inventory movements\<close>

text \<open>
  \<open>POST /api/inventory/move\<close>. The session is fetched (and created, if none is open)
  before the product is looked up. The two statements of the transaction are the stock
  update and the movement row; the table's \<open>CHECK(type IN ('entry', 'waste', 'sale'))\<close>
  makes the insert throw for any other type, which rolls the update back and answers 500.
  A success carries \<open>newStock\<close>. \<open>newStock += quantity\<close> and \<open>newStock -= quantity\<close> are the
  integer sum and difference, which is what the code computes on safe integers.
\<close>

definition move_transaction ::
  "db \<Rightarrow> nat \<Rightarrow> int \<Rightarrow> int \<Rightarrow> string \<Rightarrow> int \<Rightarrow> string option \<Rightarrow> int \<Rightarrow> (error + int) \<times> db" where
  "move_transaction d now sid product_id ty quantity reason newStock =
     (if ty \<in> set [''entry'', ''waste'', ''sale'']
      then (Inr newStock,
            insert_movement (update_products d product_id (\<lambda>p. p\<lparr>p_stock := newStock\<rparr>))
              now sid product_id ty quantity reason)
      else (Inl (HttpError 500 ''Failed to record movement''), d))"

definition recordMovement ::
  "db \<Rightarrow> nat \<Rightarrow> int \<Rightarrow> string \<Rightarrow> int \<Rightarrow> string option \<Rightarrow> (error + int) \<times> db" where
  "recordMovement d now product_id ty quantity reason =
     (let (session, d1) = getCurrentSession d now
      in case select_product d1 product_id of
           None \<Rightarrow> (Inl (HttpError 404 ''Product not found''), d1)
         | Some product \<Rightarrow>
             if ty = ''entry''
             then move_transaction d1 now (s_id session) product_id ty quantity reason
                    (p_stock product + quantity)
             else if ty = ''waste''
             then (if p_stock product < quantity
                   then (Inl (HttpError 400 ''Insufficient stock for waste''), d1)
                   else move_transaction d1 now (s_id session) product_id ty quantity reason
                          (p_stock product - quantity))
             else move_transaction d1 now (s_id session) product_id ty quantity reason
                    (p_stock product))"

subsection \<open>Sales\<close>

text \<open>
  The message of the \<open>TypeError\<close> that \<open>product.stock\<close> throws when the select found no
  row (\<open>product\<close> is \<open>undefined\<close>), as V8 words it.
\<close>

definition undefined_stock_message :: string where
  "undefined_stock_message =
     ''Cannot read properties of undefined (reading '' @ [CHR 0x27] @ ''stock'' @ [CHR 0x27] @ '')''"

text \<open>
  The loop over \<open>items\<close> inside the transaction of \<open>POST /api/sales\<close>. A throw is an
  \<open>Inl\<close>: the handler's \<open>catch\<close> answers 400 with the error's message.
  \<open>SET stock = stock - ?\<close> is the integer difference, which is what SQLite computes when
  the stock, the quantity and the difference are safe integers.
\<close>

fun sale_loop :: "nat \<Rightarrow> int \<Rightarrow> int \<Rightarrow> item list \<Rightarrow> db \<Rightarrow> error + db" where
  "sale_loop now sid saleId [] d = Inr d"
| "sale_loop now sid saleId (it # items) d =
     (case select_product d (item_id it) of
        None \<Rightarrow> Inl (HttpError 400 undefined_stock_message)
      | Some product \<Rightarrow>
          if p_stock product < item_quantity it
          then Inl (HttpError 400 (''Insufficient stock for '' @ item_name it))
          else sale_loop now sid saleId items
                 (insert_movement
                    (update_products
                       (insert_sale_item d saleId (item_id it) (item_quantity it) (item_price it))
                       (item_id it) (\<lambda>p. p\<lparr>p_stock := p_stock p - item_quantity it\<rparr>))
                    now sid (item_id it) ''sale'' (item_quantity it) (Some ''Venta'')))"

text \<open>
  The message of the error SQLite raises when the \<open>CHECK\<close> on \<open>payment_method\<close> fails.
\<close>

definition payment_check_message :: string where
  "payment_check_message = ''CHECK constraint failed: payment_method IN (''
     @ [CHR 0x27] @ ''cash'' @ [CHR 0x27] @ '', '' @ [CHR 0x27] @ ''transfer'' @ [CHR 0x27] @ '')''"

text \<open>The transaction of \<open>POST /api/sales\<close>: the sale row, then the loop.\<close>

definition sale_transaction ::
  "db \<Rightarrow> nat \<Rightarrow> int \<Rightarrow> item list \<Rightarrow> string \<Rightarrow> rat \<Rightarrow> error + (int \<times> db)" where
  "sale_transaction d now sid items payment_method total' =
     (if payment_method \<in> set [''cash'', ''transfer'']
      then (let (saleId, d1) = insert_sale d now sid total' payment_method
            in case sale_loop now sid saleId items d1 of
                 Inl e \<Rightarrow> Inl e
               | Inr d2 \<Rightarrow> Inr (saleId, d2))
      else Inl (HttpError 400 payment_check_message))"

text \<open>
  \<open>POST /api/sales\<close>. The session is fetched before the transaction starts; a throw
  inside the transaction rolls back to the database as it was then. A success carries
  \<open>saleId\<close>.
\<close>

definition checkout :: "db \<Rightarrow> nat \<Rightarrow> item list \<Rightarrow> string \<Rightarrow> rat \<Rightarrow> (error + int) \<times> db" where
  "checkout d now items payment_method total' =
     (let (session, d1) = getCurrentSession d now
      in case sale_transaction d1 now (s_id session) items payment_method total' of
           Inl e \<Rightarrow> (Inl e, d1)
         | Inr (saleId, d2) \<Rightarrow> (Inr saleId, d2))"

subsection \<open>Reports\<close>

text \<open>
  \<open>GET /api/reports/session/:id\<close>: the sales of the session, and its movements joined
  with the product's name (an inner join on the product id, whatever \<open>deleted\<close> is).
  The second argument is the number the \<open>:id\<close> segment of the URL denotes. A row of the
  join is the movement paired with \<open>product_name\<close>.
\<close>

definition reportForSession :: "db \<Rightarrow> int \<Rightarrow> sale list \<times> (movement \<times> string) list" where
  "reportForSession d sessionId =
     (filter (\<lambda>s. sale_session_id s = sessionId) (sales d),
      concat (map (\<lambda>m. map (\<lambda>p. (m, p_name p))
                          (filter (\<lambda>p. p_id p = m_product_id m) (products d)))
                  (filter (\<lambda>m. m_session_id m = sessionId) (movements d))))"

subsection \<open>Sequences of requests\<close>

datatype request =
    GetCurrentSession
  | CloseSession
  | AddProduct string rat int
  | UpdateProduct "int option" string rat int
  | SoftDeleteProduct "int option"
  | RecordMovement int string int "string option"
  | Checkout "item list" string rat

text \<open>
  A request with the time it arrives at; \<open>handle\<close> is the database its handler leaves,
  \<open>run\<close> the database after a sequence of requests, handled one after the other.
\<close>

fun handle :: "db \<Rightarrow> nat \<times> request \<Rightarrow> db" where
  "handle d (now, GetCurrentSession) = snd (getCurrentSession d now)"
| "handle d (now, CloseSession) = snd (closeSession d now)"
| "handle d (now, AddProduct name price initial_stock) = snd (addProduct d name price initial_stock)"
| "handle d (now, UpdateProduct i name price stock) = snd (updateProduct d i name price stock)"
| "handle d (now, SoftDeleteProduct i) = snd (softDeleteProduct d i)"
| "handle d (now, RecordMovement pid ty q reason) = snd (recordMovement d now pid ty q reason)"
| "handle d (now, Checkout items pm total') = snd (checkout d now items pm total')"

definition run :: "db \<Rightarrow> (nat \<times> request) list \<Rightarrow> db" where
  "run d reqs = foldl handle d reqs"

text \<open>The schema's primary key on \<open>products.id\<close>.\<close>

definition products_key :: "db \<Rightarrow> bool" where
  "products_key d = distinct (map p_id (products d))"

definition stocks_nonneg :: "db \<Rightarrow> bool" where
  "stocks_nonneg d = list_all (\<lambda>p. 0 \<le> p_stock p) (products d)"

text \<open>
  The requests of the stock invariant: movements and sales, where a movement of type
  \<open>entry\<close> has a quantity that is not negative.
\<close>

fun stock_request :: "request \<Rightarrow> bool" where
  "stock_request (RecordMovement pid ty q reason) = (ty = ''entry'' \<longrightarrow> 0 \<le> q)"
| "stock_request (Checkout items pm total') = True"
| "stock_request _ = False"

text \<open>The requests whose handler calls \<open>getCurrentSession\<close>.\<close>

fun uses_session :: "request \<Rightarrow> bool" where
  "uses_session GetCurrentSession = True"
| "uses_session CloseSession = True"
| "uses_session (RecordMovement pid ty q reason) = True"
| "uses_session (Checkout items pm total') = True"
| "uses_session _ = False"

subsection \<open>Example databases\<close>

text \<open>One product \<open>A\<close> (id 1, price 10) with the given stock, added to the empty database.\<close>

definition shop :: "int \<Rightarrow> db" where
  "shop stock = snd (addProduct empty_db ''A'' 10 stock)"

text \<open>Two products: \<open>P1\<close> (id 1, stock 2) and \<open>P2\<close> (id 2, stock 0).\<close>

definition two_products :: db where
  "two_products = snd (addProduct (snd (addProduct empty_db ''P1'' 10 2)) ''P2'' 5 0)"


text \<open>The shop with stock 3 after an entry of 2 (a movement of session 1).\<close>

definition restocked_shop :: db where
  "restocked_shop = snd (recordMovement (shop 3) 7 1 ''entry'' 2 None)"

text \<open>The two products after an entry of 5 for \<open>P2\<close> (session 1 is open).\<close>

definition restocked_two :: db where
  "restocked_two = snd (recordMovement two_products 7 2 ''entry'' 5 None)"

text \<open>Four closings from the empty database: sessions 1 to 4 are closed, session 5 is open.\<close>

definition fifth_session_open :: db where
  "fifth_session_open =
     run empty_db [(1, CloseSession), (2, CloseSession), (3, CloseSession), (4, CloseSession)]"

text \<open>A waste, a sale, a waste beyond the stock and an entry, on the product of \<open>shop 3\<close>.\<close>

definition busy_day :: "(nat \<times> request) list" where
  "busy_day =
     [(7, RecordMovement 1 ''waste'' 2 None),
      (8, Checkout [\<lparr>item_id = 1, item_name = ''A'', item_quantity = 1, item_price = 10\<rparr>]
            ''cash'' 10),
      (9, RecordMovement 1 ''waste'' 5 None),
      (10, RecordMovement 1 ''entry'' 4 None)]"

section \<open>Properties\<close>

subsection \<open>The example databases, evaluated\<close>

lemma shop_eq:
  "shop n = \<lparr>sessions = [], products = [\<lparr>p_id = 1, p_name = ''A'', p_price = 10, p_stock = n,
      p_initial_stock = n, p_deleted = 0, p_image = None\<rparr>], movements = [], sales = [],
      sale_items = []\<rparr>"
  by (simp add: shop_def addProduct_def empty_db_def next_rowid_def)


lemma restocked_shop_eq:
  "restocked_shop = \<lparr>sessions = [\<lparr>s_id = 1, s_start_time = 7, s_end_time = None, s_is_closed = 0\<rparr>],
      products = [\<lparr>p_id = 1, p_name = ''A'', p_price = 10, p_stock = 5, p_initial_stock = 3,
        p_deleted = 0, p_image = None\<rparr>],
      movements = [\<lparr>m_id = 1, m_session_id = 1, m_product_id = 1, m_type = ''entry'',
        m_quantity = 2, m_reason = None, m_timestamp = 7\<rparr>],
      sales = [], sale_items = []\<rparr>"
  by (simp add: restocked_shop_def shop_eq recordMovement_def getCurrentSession_def
        insert_session_def select_product_def move_transaction_def update_products_def
        insert_movement_def next_rowid_def)

lemma two_products_eq:
  "two_products = \<lparr>sessions = [], products =
      [\<lparr>p_id = 1, p_name = ''P1'', p_price = 10, p_stock = 2, p_initial_stock = 2,
         p_deleted = 0, p_image = None\<rparr>,
       \<lparr>p_id = 2, p_name = ''P2'', p_price = 5, p_stock = 0, p_initial_stock = 0,
         p_deleted = 0, p_image = None\<rparr>],
      movements = [], sales = [], sale_items = []\<rparr>"
  by (simp add: two_products_def addProduct_def empty_db_def next_rowid_def)

lemma restocked_two_eq:
  "restocked_two = \<lparr>sessions = [\<lparr>s_id = 1, s_start_time = 7, s_end_time = None, s_is_closed = 0\<rparr>],
      products =
      [\<lparr>p_id = 1, p_name = ''P1'', p_price = 10, p_stock = 2, p_initial_stock = 2,
         p_deleted = 0, p_image = None\<rparr>,
       \<lparr>p_id = 2, p_name = ''P2'', p_price = 5, p_stock = 5, p_initial_stock = 0,
         p_deleted = 0, p_image = None\<rparr>],
      movements = [\<lparr>m_id = 1, m_session_id = 1, m_product_id = 2, m_type = ''entry'',
        m_quantity = 5, m_reason = None, m_timestamp = 7\<rparr>],
      sales = [], sale_items = []\<rparr>"
  by (simp add: restocked_two_def two_products_eq recordMovement_def getCurrentSession_def
        insert_session_def select_product_def move_transaction_def update_products_def
        insert_movement_def next_rowid_def)

lemma fifth_session_open_eq:
  "fifth_session_open = \<lparr>sessions =
     [\<lparr>s_id = 1, s_start_time = 1, s_end_time = Some 1, s_is_closed = 1\<rparr>,
      \<lparr>s_id = 2, s_start_time = 1, s_end_time = Some 2, s_is_closed = 1\<rparr>,
      \<lparr>s_id = 3, s_start_time = 2, s_end_time = Some 3, s_is_closed = 1\<rparr>,
      \<lparr>s_id = 4, s_start_time = 3, s_end_time = Some 4, s_is_closed = 1\<rparr>,
      \<lparr>s_id = 5, s_start_time = 4, s_end_time = None, s_is_closed = 0\<rparr>],
     products = [], movements = [], sales = [], sale_items = []\<rparr>"
  by (simp add: fifth_session_open_def run_def empty_db_def closeSession_def getCurrentSession_def
        insert_session_def next_rowid_def)

subsection \<open>What fetching the session leaves alone\<close>

lemma getCurrentSession_products:
  "products (snd (getCurrentSession d now)) = products d"
  by (simp add: getCurrentSession_def insert_session_def Let_def split: option.splits)

lemma getCurrentSession_movements:
  "movements (snd (getCurrentSession d now)) = movements d"
  by (simp add: getCurrentSession_def insert_session_def Let_def split: option.splits)

lemma getCurrentSession_sales:
  "sales (snd (getCurrentSession d now)) = sales d"
  by (simp add: getCurrentSession_def insert_session_def Let_def split: option.splits)

lemma getCurrentSession_sale_items:
  "sale_items (snd (getCurrentSession d now)) = sale_items d"
  by (simp add: getCurrentSession_def insert_session_def Let_def split: option.splits)

lemma getCurrentSession_select:
  "select_product (snd (getCurrentSession d now)) i = select_product d i"
  by (simp add: select_product_def getCurrentSession_products)

lemma getCurrentSession_open:
  "latest_open (sessions d) = Some s \<Longrightarrow> getCurrentSession d now = (s, d)"
  by (simp add: getCurrentSession_def)

lemmas getCurrentSession_frame =
  getCurrentSession_products getCurrentSession_movements getCurrentSession_sales
  getCurrentSession_sale_items getCurrentSession_select

subsection \<open>Waste beyond the stock\<close>

text \<open>
  C5. A waste movement whose quantity exceeds the product's stock is answered
  400 \<open>Insufficient stock for waste\<close>. The database after the call is the one
  \<open>getCurrentSession\<close> left (the same database when a session is open): the products
  table, and so the product's stock, is unchanged, and no movement, sale or sale item is
  inserted.
\<close>

theorem waste_beyond_stock_rejected:
  assumes "select_product d pid = Some product" and "p_stock product < q"
  shows "recordMovement d now pid ''waste'' q reason =
           (Inl (HttpError 400 ''Insufficient stock for waste''), snd (getCurrentSession d now))
       \<and> products (snd (recordMovement d now pid ''waste'' q reason)) = products d
       \<and> movements (snd (recordMovement d now pid ''waste'' q reason)) = movements d
       \<and> sales (snd (recordMovement d now pid ''waste'' q reason)) = sales d
       \<and> sale_items (snd (recordMovement d now pid ''waste'' q reason)) = sale_items d
       \<and> select_product (snd (recordMovement d now pid ''waste'' q reason)) pid = Some product
       \<and> (\<forall>s. latest_open (sessions d) = Some s \<longrightarrow>
            snd (recordMovement d now pid ''waste'' q reason) = d)"
proof -
  have r: "recordMovement d now pid ''waste'' q reason =
           (Inl (HttpError 400 ''Insufficient stock for waste''), snd (getCurrentSession d now))"
    using assms getCurrentSession_select [of d now pid]
    by (simp add: recordMovement_def split_beta)
  show ?thesis
    using assms by (simp add: r getCurrentSession_frame getCurrentSession_open)
qed

theorem waste_beyond_stock_rejected_witness:
  "select_product (shop 3) 1 = Some \<lparr>p_id = 1, p_name = ''A'', p_price = 10, p_stock = 3,
      p_initial_stock = 3, p_deleted = 0, p_image = None\<rparr>
   \<and> fst (recordMovement (shop 3) 7 1 ''waste'' 10 None) =
       Inl (HttpError 400 ''Insufficient stock for waste'')
   \<and> products (snd (recordMovement (shop 3) 7 1 ''waste'' 10 None)) = products (shop 3)
   \<and> movements (snd (recordMovement (shop 3) 7 1 ''waste'' 10 None)) = []
   \<and> select_product (snd (recordMovement (shop 3) 7 1 ''waste'' 10 None)) 1 =
       Some \<lparr>p_id = 1, p_name = ''A'', p_price = 10, p_stock = 3,
         p_initial_stock = 3, p_deleted = 0, p_image = None\<rparr>
   \<and> latest_open (sessions restocked_shop) =
       Some \<lparr>s_id = 1, s_start_time = 7, s_end_time = None, s_is_closed = 0\<rparr>
   \<and> recordMovement restocked_shop 8 1 ''waste'' 10 None =
       (Inl (HttpError 400 ''Insufficient stock for waste''), restocked_shop)"
proof -
  let ?p = "\<lparr>p_id = 1, p_name = ''A'', p_price = 10, p_stock = 5, p_initial_stock = 3,
        p_deleted = 0, p_image = None\<rparr>"
  have h1: "select_product (shop 3) 1 = Some \<lparr>p_id = 1, p_name = ''A'', p_price = 10,
      p_stock = 3, p_initial_stock = 3, p_deleted = 0, p_image = None\<rparr>"
    by (simp add: shop_eq select_product_def)
  have h2: "p_stock \<lparr>p_id = 1, p_name = ''A'', p_price = 10,
      p_stock = 3, p_initial_stock = 3, p_deleted = 0, p_image = None\<rparr> < 10"
    by simp
  have m: "movements (shop 3) = []"
    by (simp add: shop_eq)
  have k1: "select_product restocked_shop 1 = Some ?p"
    by (simp add: restocked_shop_eq select_product_def)
  have k2: "p_stock ?p < 10"
    by simp
  have k3: "latest_open (sessions restocked_shop) =
       Some \<lparr>s_id = 1, s_start_time = 7, s_end_time = None, s_is_closed = 0\<rparr>"
    by (simp add: restocked_shop_eq)
  have a: "fst (recordMovement (shop 3) 7 1 ''waste'' 10 None) =
       Inl (HttpError 400 ''Insufficient stock for waste'')
   \<and> products (snd (recordMovement (shop 3) 7 1 ''waste'' 10 None)) = products (shop 3)
   \<and> movements (snd (recordMovement (shop 3) 7 1 ''waste'' 10 None)) = []
   \<and> select_product (snd (recordMovement (shop 3) 7 1 ''waste'' 10 None)) 1 =
       Some \<lparr>p_id = 1, p_name = ''A'', p_price = 10, p_stock = 3,
         p_initial_stock = 3, p_deleted = 0, p_image = None\<rparr>"
    using waste_beyond_stock_rejected [OF h1 h2, of 7 None] h1 m
    by (elim conjE) simp
  note t = waste_beyond_stock_rejected [OF k1 k2, of 8 None]
  from t have f: "fst (recordMovement restocked_shop 8 1 ''waste'' 10 None) =
           Inl (HttpError 400 ''Insufficient stock for waste'')"
    by (elim conjE) simp
  from t have "\<forall>s. latest_open (sessions restocked_shop) = Some s \<longrightarrow>
            snd (recordMovement restocked_shop 8 1 ''waste'' 10 None) = restocked_shop"
    by (elim conjE)
  from f this [rule_format, OF k3]
  have b: "recordMovement restocked_shop 8 1 ''waste'' 10 None =
       (Inl (HttpError 400 ''Insufficient stock for waste''), restocked_shop)"
    by (simp add: prod_eq_iff)
  from h1 a k3 b show ?thesis
    by (elim conjE) (intro conjI)
qed

subsection \<open>Rowids, lookups and updates\<close>

lemma fold_max_ge_init: "(a::int) \<le> fold max xs a"
  by (induction xs arbitrary: a) (auto intro: order_trans [OF max.cobounded2])

lemma fold_max_ge_elem: "x \<in> set xs \<Longrightarrow> (x::int) \<le> fold max xs a"
proof (induction xs arbitrary: a)
  case Nil
  then show ?case by simp
next
  case (Cons y ys)
  show ?case
  proof (cases "x = y")
    case True
    have "y \<le> max y a" by simp
    also have "\<dots> \<le> fold max ys (max y a)" by (rule fold_max_ge_init)
    finally show ?thesis using True by simp
  next
    case False
    with Cons show ?thesis by simp
  qed
qed

lemma next_rowid_fresh: "x \<in> set ids \<Longrightarrow> x < next_rowid ids"
  using fold_max_ge_elem [of x ids 0] by (simp add: next_rowid_def)

lemma find_append_fresh:
  "\<forall>x\<in>set xs. \<not> P x \<Longrightarrow> P y \<Longrightarrow> find P (xs @ [y]) = Some y"
  by (induction xs) auto

lemma select_None_iff: "select_product d i = None \<longleftrightarrow> (\<forall>p\<in>set (products d). p_id p \<noteq> i)"
  by (auto simp: select_product_def find_None_iff)

lemma select_in_set: "select_product d i = Some p \<Longrightarrow> p \<in> set (products d) \<and> p_id p = i"
  by (auto simp: select_product_def find_Some_iff)

lemma update_products_absent: "select_product d i = None \<Longrightarrow> update_products d i f = d"
proof -
  assume "select_product d i = None"
  then have "map (\<lambda>p. if p_id p = i then f p else p) (products d) = products d"
    by (simp add: select_None_iff map_idI)
  then show ?thesis by (simp add: update_products_def)
qed

lemma changes_absent: "select_product d i = None \<Longrightarrow> changes d i = 0"
  by (simp add: select_None_iff changes_def)

lemma changes_present: "select_product d i = Some p \<Longrightarrow> 0 < changes d i"
  by (cases "changes d i = 0")
     (auto simp: changes_def select_product_def filter_empty_conv find_Some_iff)

lemma find_map_update:
  "(\<And>p. g (f p) = g p) \<Longrightarrow>
   find (\<lambda>p. g p = j) (map (\<lambda>p. if g p = i then f p else p) ps) =
     (if j = i then map_option f (find (\<lambda>p. g p = i) ps) else find (\<lambda>p. g p = j) ps)"
  by (induction ps) auto

lemma select_update_products:
  "(\<And>p. p_id (f p) = p_id p) \<Longrightarrow>
   select_product (update_products d i f) j =
     (if j = i then map_option f (select_product d i) else select_product d j)"
  using find_map_update [of p_id f j i "products d"]
  by (simp add: select_product_def update_products_def)

lemma insert_movement_select:
  "select_product (insert_movement d now sid pid ty q reason) i = select_product d i"
  by (simp add: insert_movement_def select_product_def)

lemma insert_movement_products:
  "products (insert_movement d now sid pid ty q reason) = products d"
  by (simp add: insert_movement_def)


subsection \<open>An id that matches no product\<close>

text \<open>
  C7, as the code has it. For an id that matches no product row, \<open>updateProduct\<close> and
  \<open>softDeleteProduct\<close> answer with a success whose \<open>changes\<close> is 0 (not with an error),
  and the database is unchanged.
\<close>

theorem unmatched_id_zero_changes:
  assumes "select_product d i = None"
  shows "updateProduct d (Some i) name price stock = (Inr 0, d)
       \<and> softDeleteProduct d (Some i) = (Inr 0, d)"
  using assms
  by (simp add: updateProduct_def softDeleteProduct_def update_products_absent changes_absent)

theorem unmatched_id_zero_changes_witness:
  "select_product empty_db 1 = None
   \<and> updateProduct empty_db (Some 1) ''B'' 2 4 = (Inr 0, empty_db)
   \<and> softDeleteProduct empty_db (Some 1) = (Inr 0, empty_db)
   \<and> select_product two_products 3 = None
   \<and> updateProduct two_products (Some 3) ''B'' 2 4 = (Inr 0, two_products)
   \<and> softDeleteProduct two_products (Some 3) = (Inr 0, two_products)"
proof -
  have h: "select_product empty_db 1 = None"
    by (simp add: select_product_def empty_db_def)
  have k: "select_product two_products 3 = None"
    by (simp add: select_product_def two_products_eq)
  from unmatched_id_zero_changes [OF h, of "''B''" 2 4]
    unmatched_id_zero_changes [OF k, of "''B''" 2 4] h k
  show ?thesis
    by (elim conjE) (intro conjI)
qed

text \<open>
  The claim as stated fails: with one product of id 1 stored, both calls on id 2 are
  answered with a success.
\<close>

theorem unmatched_id_answered_success:
  "select_product (shop 3) 2 = None
   \<and> fst (updateProduct (shop 3) (Some 2) ''B'' 1 1) = Inr 0
   \<and> fst (softDeleteProduct (shop 3) (Some 2)) = Inr 0"
  by (simp add: shop_eq select_product_def updateProduct_def softDeleteProduct_def changes_def)

subsection \<open>Price and stock are stored as given\<close>

text \<open>
  C6, as the code has it. Neither handler validates price or stock. \<open>addProduct\<close>
  inserts the row with the values given, whatever their sign, and answers with its id.
  \<open>updateProduct\<close> on the id of a stored product overwrites name, price and stock with
  the values given, answers with a success that counts at least one changed row, and
  leaves the products of every other id as they were. The only request it refuses is
  one whose id is not a number: 400 \<open>Invalid product ID\<close>, the database unchanged.
\<close>

theorem price_and_stock_stored_as_given:
  "select_product (snd (addProduct d name price stock)) (fst (addProduct d name price stock)) =
      Some \<lparr>p_id = fst (addProduct d name price stock), p_name = name, p_price = price,
            p_stock = stock, p_initial_stock = stock, p_deleted = 0, p_image = None\<rparr>
   \<and> (\<forall>p. select_product d i = Some p \<longrightarrow>
         fst (updateProduct d (Some i) name price stock) = Inr (changes d i)
       \<and> 0 < changes d i
       \<and> select_product (snd (updateProduct d (Some i) name price stock)) i =
           Some (p\<lparr>p_name := name, p_price := price, p_stock := stock\<rparr>))
   \<and> (\<forall>j. j \<noteq> i \<longrightarrow>
         select_product (snd (updateProduct d (Some i) name price stock)) j = select_product d j)
   \<and> updateProduct d None name price stock = (Inl (HttpError 400 ''Invalid product ID''), d)"
proof -
  let ?n = "next_rowid (map p_id (products d))"
  have fresh: "\<forall>p\<in>set (products d). \<not> p_id p = ?n"
    using next_rowid_fresh [of _ "map p_id (products d)"] by fastforce
  have a: "select_product (snd (addProduct d name price stock)) (fst (addProduct d name price stock)) =
      Some \<lparr>p_id = fst (addProduct d name price stock), p_name = name, p_price = price,
            p_stock = stock, p_initial_stock = stock, p_deleted = 0, p_image = None\<rparr>"
    using find_append_fresh [OF fresh, of "\<lparr>p_id = ?n, p_name = name, p_price = price,
            p_stock = stock, p_initial_stock = stock, p_deleted = 0, p_image = None\<rparr>"]
    by (simp add: addProduct_def select_product_def Let_def)
  have b: "\<forall>p. select_product d i = Some p \<longrightarrow>
         fst (updateProduct d (Some i) name price stock) = Inr (changes d i)
       \<and> 0 < changes d i
       \<and> select_product (snd (updateProduct d (Some i) name price stock)) i =
           Some (p\<lparr>p_name := name, p_price := price, p_stock := stock\<rparr>)"
    by (simp add: updateProduct_def changes_present select_update_products)
  have c: "\<forall>j. j \<noteq> i \<longrightarrow>
         select_product (snd (updateProduct d (Some i) name price stock)) j = select_product d j"
    by (simp add: updateProduct_def select_update_products)
  have e: "updateProduct d None name price stock = (Inl (HttpError 400 ''Invalid product ID''), d)"
    by (simp add: updateProduct_def)
  from a b c e show ?thesis by blast
qed

theorem price_and_stock_stored_as_given_witness:
  "select_product two_products 1 = Some \<lparr>p_id = 1, p_name = ''P1'', p_price = 10, p_stock = 2,
      p_initial_stock = 2, p_deleted = 0, p_image = None\<rparr>
   \<and> fst (updateProduct two_products (Some 1) ''B'' (- 2) (- 4)) = Inr (changes two_products 1)
   \<and> 0 < changes two_products 1
   \<and> select_product (snd (updateProduct two_products (Some 1) ''B'' (- 2) (- 4))) 1 =
       Some \<lparr>p_id = 1, p_name = ''B'', p_price = - 2, p_stock = - 4,
         p_initial_stock = 2, p_deleted = 0, p_image = None\<rparr>
   \<and> select_product (snd (updateProduct two_products (Some 1) ''B'' (- 2) (- 4))) 2 =
       Some \<lparr>p_id = 2, p_name = ''P2'', p_price = 5, p_stock = 0,
         p_initial_stock = 0, p_deleted = 0, p_image = None\<rparr>
   \<and> fst (addProduct two_products ''B'' (- 2) (- 4)) = 3
   \<and> select_product (snd (addProduct two_products ''B'' (- 2) (- 4))) 3 =
       Some \<lparr>p_id = 3, p_name = ''B'', p_price = - 2, p_stock = - 4,
         p_initial_stock = - 4, p_deleted = 0, p_image = None\<rparr>"
proof -
  have h: "select_product two_products 1 = Some \<lparr>p_id = 1, p_name = ''P1'', p_price = 10,
      p_stock = 2, p_initial_stock = 2, p_deleted = 0, p_image = None\<rparr>"
    by (simp add: two_products_eq select_product_def)
  have h2: "select_product two_products 2 = Some \<lparr>p_id = 2, p_name = ''P2'', p_price = 5,
      p_stock = 0, p_initial_stock = 0, p_deleted = 0, p_image = None\<rparr>"
    by (simp add: two_products_eq select_product_def)
  have n: "fst (addProduct two_products ''B'' (- 2) (- 4)) = 3"
    by (simp add: two_products_eq addProduct_def next_rowid_def)
  note t = price_and_stock_stored_as_given [of two_products "''B''" "- 2" "- 4" 1]
  from t have "\<forall>p. select_product two_products 1 = Some p \<longrightarrow>
         fst (updateProduct two_products (Some 1) ''B'' (- 2) (- 4)) = Inr (changes two_products 1)
       \<and> 0 < changes two_products 1
       \<and> select_product (snd (updateProduct two_products (Some 1) ''B'' (- 2) (- 4))) 1 =
           Some (p\<lparr>p_name := ''B'', p_price := - 2, p_stock := - 4\<rparr>)"
    by (elim conjE)
  from this [rule_format, OF h]
  have a: "fst (updateProduct two_products (Some 1) ''B'' (- 2) (- 4)) = Inr (changes two_products 1)
   \<and> 0 < changes two_products 1
   \<and> select_product (snd (updateProduct two_products (Some 1) ''B'' (- 2) (- 4))) 1 =
       Some \<lparr>p_id = 1, p_name = ''B'', p_price = - 2, p_stock = - 4,
         p_initial_stock = 2, p_deleted = 0, p_image = None\<rparr>"
    by simp
  from t have "\<forall>j. j \<noteq> 1 \<longrightarrow>
         select_product (snd (updateProduct two_products (Some 1) ''B'' (- 2) (- 4))) j =
           select_product two_products j"
    by (elim conjE)
  from this [rule_format, of 2] h2
  have b: "select_product (snd (updateProduct two_products (Some 1) ''B'' (- 2) (- 4))) 2 =
       Some \<lparr>p_id = 2, p_name = ''P2'', p_price = 5, p_stock = 0,
         p_initial_stock = 0, p_deleted = 0, p_image = None\<rparr>"
    by simp
  from t n
  have c: "select_product (snd (addProduct two_products ''B'' (- 2) (- 4))) 3 =
       Some \<lparr>p_id = 3, p_name = ''B'', p_price = - 2, p_stock = - 4,
         p_initial_stock = - 4, p_deleted = 0, p_image = None\<rparr>"
    by (elim conjE) simp
  from h a b n c show ?thesis
    by (elim conjE) (intro conjI)
qed

text \<open>
  The claim as stated fails: an update of the stored product with the price \<open>- 1\<close> is
  answered with a success, and the stored row has the price \<open>- 1\<close> afterwards; a
  product added with price \<open>- 1\<close> and stock \<open>- 3\<close> is stored with them.
\<close>

theorem negative_price_stored:
  "fst (updateProduct (shop 3) (Some 1) ''A'' (- 1) 3) = Inr 1
   \<and> products (snd (updateProduct (shop 3) (Some 1) ''A'' (- 1) 3)) =
       [\<lparr>p_id = 1, p_name = ''A'', p_price = - 1, p_stock = 3,
         p_initial_stock = 3, p_deleted = 0, p_image = None\<rparr>]
   \<and> fst (addProduct empty_db ''A'' (- 1) (- 3)) = 1
   \<and> products (snd (addProduct empty_db ''A'' (- 1) (- 3))) =
       [\<lparr>p_id = 1, p_name = ''A'', p_price = - 1, p_stock = - 3,
         p_initial_stock = - 3, p_deleted = 0, p_image = None\<rparr>]"
  by (simp add: shop_eq updateProduct_def changes_def update_products_def addProduct_def
        empty_db_def next_rowid_def)

subsection \<open>A movement on a product that is absent or soft-deleted\<close>




subsection \<open>Soft deletion and the session report\<close>

lemma report_join_update:
  "(\<And>p. p_id (f p) = p_id p) \<Longrightarrow> (\<And>p. p_name (f p) = p_name p) \<Longrightarrow>
   map (\<lambda>p. (m, p_name p))
     (filter (\<lambda>p. p_id p = k) (map (\<lambda>p. if p_id p = i then f p else p) ps)) =
   map (\<lambda>p. (m, p_name p)) (filter (\<lambda>p. p_id p = k) ps)"
  by (induction ps) auto

lemma report_update_products:
  "(\<And>p. p_id (f p) = p_id p) \<Longrightarrow> (\<And>p. p_name (f p) = p_name p) \<Longrightarrow>
   reportForSession (update_products d i f) sid = reportForSession d sid"
  by (simp add: reportForSession_def update_products_def report_join_update)

lemma list_after_delete:
  "filter (\<lambda>p. p_deleted p = 0) (map (\<lambda>p. if p_id p = i then p\<lparr>p_deleted := 1\<rparr> else p) ps) =
   filter (\<lambda>q. p_id q \<noteq> i) (filter (\<lambda>p. p_deleted p = 0) ps)"
  by (induction ps) auto

text \<open>
  C10. After \<open>softDeleteProduct\<close> of a stored product, \<open>listProducts\<close> is the former
  listing without the rows of that id, so the product is not listed; the report of
  every session is the same as before, and every movement of the session that refers
  to the product is in it, joined with the product's name.
\<close>

theorem soft_delete_hides_product_keeps_report:
  assumes "select_product d i = Some p"
  shows "listProducts (snd (softDeleteProduct d (Some i))) =
           filter (\<lambda>q. p_id q \<noteq> i) (listProducts d)
       \<and> (\<forall>q\<in>set (listProducts (snd (softDeleteProduct d (Some i)))). p_id q \<noteq> i)
       \<and> reportForSession (snd (softDeleteProduct d (Some i))) sid = reportForSession d sid
       \<and> (\<forall>m\<in>set (movements d). m_session_id m = sid \<and> m_product_id m = i \<longrightarrow>
            (m, p_name p) \<in> set (snd (reportForSession (snd (softDeleteProduct d (Some i))) sid)))"
proof -
  have l: "listProducts (snd (softDeleteProduct d (Some i))) =
           filter (\<lambda>q. p_id q \<noteq> i) (listProducts d)"
    by (simp add: listProducts_def softDeleteProduct_def update_products_def list_after_delete)
  have r: "reportForSession (snd (softDeleteProduct d (Some i))) sid = reportForSession d sid"
    by (simp add: softDeleteProduct_def report_update_products)
  have j: "(m, p_name p) \<in> set (snd (reportForSession d sid))"
    if "m \<in> set (movements d)" "m_session_id m = sid" "m_product_id m = i" for m
    using that select_in_set [OF assms] by (force simp: reportForSession_def)
  show ?thesis
    using j by (simp add: l r)
qed

theorem soft_delete_hides_product_keeps_report_witness:
  "select_product restocked_two 2 = Some \<lparr>p_id = 2, p_name = ''P2'', p_price = 5, p_stock = 5,
      p_initial_stock = 0, p_deleted = 0, p_image = None\<rparr>
   \<and> listProducts (snd (softDeleteProduct restocked_two (Some 2))) =
       [\<lparr>p_id = 1, p_name = ''P1'', p_price = 10, p_stock = 2, p_initial_stock = 2,
         p_deleted = 0, p_image = None\<rparr>]
   \<and> p_id \<lparr>p_id = 1, p_name = ''P1'', p_price = 10, p_stock = 2, p_initial_stock = 2,
         p_deleted = 0, p_image = None\<rparr> \<noteq> 2
   \<and> reportForSession (snd (softDeleteProduct restocked_two (Some 2))) 1 =
       reportForSession restocked_two 1
   \<and> (\<lparr>m_id = 1, m_session_id = 1, m_product_id = 2, m_type = ''entry'',
        m_quantity = 5, m_reason = None, m_timestamp = 7\<rparr>, ''P2'')
       \<in> set (snd (reportForSession (snd (softDeleteProduct restocked_two (Some 2))) 1))"
proof -
  let ?p1 = "\<lparr>p_id = 1, p_name = ''P1'', p_price = 10, p_stock = 2, p_initial_stock = 2,
         p_deleted = 0, p_image = None\<rparr>"
  let ?p2 = "\<lparr>p_id = 2, p_name = ''P2'', p_price = 5, p_stock = 5,
      p_initial_stock = 0, p_deleted = 0, p_image = None\<rparr>"
  let ?m = "\<lparr>m_id = 1, m_session_id = 1, m_product_id = 2, m_type = ''entry'',
        m_quantity = 5, m_reason = None, m_timestamp = 7\<rparr>"
  have h: "select_product restocked_two 2 = Some ?p2"
    by (simp add: restocked_two_eq select_product_def)
  have l: "listProducts restocked_two = [?p1, ?p2]"
    by (simp add: restocked_two_eq listProducts_def)
  have m: "?m \<in> set (movements restocked_two)"
    by (simp add: restocked_two_eq)
  note t = soft_delete_hides_product_keeps_report [OF h, of 1]
  from t have a: "listProducts (snd (softDeleteProduct restocked_two (Some 2))) = [?p1]"
    by (simp add: l)
  from t have "\<forall>q\<in>set (listProducts (snd (softDeleteProduct restocked_two (Some 2)))). p_id q \<noteq> 2"
    by (elim conjE)
  with a have b: "p_id ?p1 \<noteq> 2"
    by simp
  from t have c: "reportForSession (snd (softDeleteProduct restocked_two (Some 2))) 1 =
       reportForSession restocked_two 1"
    by (elim conjE)
  from t have "\<forall>m\<in>set (movements restocked_two). m_session_id m = 1 \<and> m_product_id m = 2 \<longrightarrow>
      (m, p_name ?p2) \<in> set (snd (reportForSession (snd (softDeleteProduct restocked_two (Some 2))) 1))"
    by (elim conjE)
  from this [rule_format, OF m] have d:
    "(?m, ''P2'') \<in> set (snd (reportForSession (snd (softDeleteProduct restocked_two (Some 2))) 1))"
    by simp
  from h a b c d show ?thesis
    by (intro conjI)
qed

subsection \<open>The sale loop and the transaction around it\<close>

lemma sale_step_frame:
  "sessions (insert_movement (update_products (insert_sale_item d saleId i q price) j f) now sid k ty q' r) = sessions d"
  "sales (insert_movement (update_products (insert_sale_item d saleId i q price) j f) now sid k ty q' r) = sales d"
  by (simp_all add: insert_movement_def update_products_def insert_sale_item_def)

lemma sale_loop_sessions: "sale_loop now sid saleId items d = Inr d' \<Longrightarrow> sessions d' = sessions d"
  by (induction items arbitrary: d) (auto simp: sale_step_frame split: option.splits if_splits)

lemma sale_loop_sales: "sale_loop now sid saleId items d = Inr d' \<Longrightarrow> sales d' = sales d"
  by (induction items arbitrary: d) (auto simp: sale_step_frame split: option.splits if_splits)

lemma sale_loop_movements:
  "sale_loop now sid saleId items d = Inr d' \<Longrightarrow>
   \<exists>ms. movements d' = movements d @ ms \<and> map m_product_id ms = map item_id items
      \<and> map m_quantity ms = map item_quantity items
      \<and> list_all (\<lambda>m. m_type m = ''sale'' \<and> m_reason m = Some ''Venta'' \<and> m_session_id m = sid) ms"
proof (induction items arbitrary: d)
  case Nil
  then show ?case by simp
next
  case (Cons it items)
  let ?d1 = "insert_movement
                    (update_products
                       (insert_sale_item d saleId (item_id it) (item_quantity it) (item_price it))
                       (item_id it) (\<lambda>p. p\<lparr>p_stock := p_stock p - item_quantity it\<rparr>))
                    now sid (item_id it) ''sale'' (item_quantity it) (Some ''Venta'')"
  from Cons.prems have l: "sale_loop now sid saleId items ?d1 = Inr d'"
    by (simp split: option.splits if_splits)
  from Cons.IH [OF l] obtain ms where ms: "movements d' = movements ?d1 @ ms"
     "map m_product_id ms = map item_id items" "map m_quantity ms = map item_quantity items"
     "list_all (\<lambda>m. m_type m = ''sale'' \<and> m_reason m = Some ''Venta'' \<and> m_session_id m = sid) ms"
    by blast
  have m1: "movements ?d1 = movements d @ [\<lparr>m_id = next_rowid (map m_id (movements d)), m_session_id = sid,
          m_product_id = item_id it, m_type = ''sale'', m_quantity = item_quantity it,
          m_reason = Some ''Venta'', m_timestamp = now\<rparr>]"
    by (simp add: insert_movement_def update_products_def insert_sale_item_def)
  show ?case
    by (rule exI [of _ "\<lparr>m_id = next_rowid (map m_id (movements d)), m_session_id = sid,
          m_product_id = item_id it, m_type = ''sale'', m_quantity = item_quantity it,
          m_reason = Some ''Venta'', m_timestamp = now\<rparr> # ms"]) (simp add: ms m1)
qed

lemma sale_loop_sale_items:
  "sale_loop now sid saleId items d = Inr d' \<Longrightarrow>
   \<exists>sis. sale_items d' = sale_items d @ sis \<and> map si_product_id sis = map item_id items
      \<and> map si_quantity sis = map item_quantity items
      \<and> map si_price_at_sale sis = map item_price items
      \<and> list_all (\<lambda>si. si_sale_id si = saleId) sis"
proof (induction items arbitrary: d)
  case Nil
  then show ?case by simp
next
  case (Cons it items)
  let ?d1 = "insert_movement
                    (update_products
                       (insert_sale_item d saleId (item_id it) (item_quantity it) (item_price it))
                       (item_id it) (\<lambda>p. p\<lparr>p_stock := p_stock p - item_quantity it\<rparr>))
                    now sid (item_id it) ''sale'' (item_quantity it) (Some ''Venta'')"
  from Cons.prems have l: "sale_loop now sid saleId items ?d1 = Inr d'"
    by (simp split: option.splits if_splits)
  from Cons.IH [OF l] obtain sis where sis: "sale_items d' = sale_items ?d1 @ sis"
     "map si_product_id sis = map item_id items" "map si_quantity sis = map item_quantity items"
     "map si_price_at_sale sis = map item_price items"
     "list_all (\<lambda>si. si_sale_id si = saleId) sis"
    by blast
  have m1: "sale_items ?d1 = sale_items d @ [\<lparr>si_id = next_rowid (map si_id (sale_items d)), si_sale_id = saleId,
          si_product_id = item_id it, si_quantity = item_quantity it, si_price_at_sale = item_price it\<rparr>]"
    by (simp add: insert_movement_def update_products_def insert_sale_item_def)
  show ?case
    by (rule exI [of _ "\<lparr>si_id = next_rowid (map si_id (sale_items d)), si_sale_id = saleId,
          si_product_id = item_id it, si_quantity = item_quantity it, si_price_at_sale = item_price it\<rparr> # sis"])
       (simp add: sis m1)
qed

lemma checkout_fail:
  "fst (checkout d now items pm total') = Inl e \<Longrightarrow>
   snd (checkout d now items pm total') = snd (getCurrentSession d now)"
  by (auto simp: checkout_def split_beta split: sum.splits)

lemma checkout_unfold:
  "checkout d now items pm total' =
    (if pm \<in> set [''cash'', ''transfer'']
     then (case sale_loop now (s_id (fst (getCurrentSession d now)))
                  (fst (insert_sale (snd (getCurrentSession d now)) now (s_id (fst (getCurrentSession d now))) total' pm))
                  items
                  (snd (insert_sale (snd (getCurrentSession d now)) now (s_id (fst (getCurrentSession d now))) total' pm)) of
             Inl e \<Rightarrow> (Inl e, snd (getCurrentSession d now))
           | Inr d2 \<Rightarrow> (Inr (fst (insert_sale (snd (getCurrentSession d now)) now (s_id (fst (getCurrentSession d now))) total' pm)), d2))
     else (Inl (HttpError 400 payment_check_message), snd (getCurrentSession d now)))"
  by (simp add: checkout_def sale_transaction_def split_beta split: sum.splits)

lemma insert_sale_select: "select_product (snd (insert_sale d now sid t pm)) i = select_product d i"
  by (simp add: insert_sale_def select_product_def Let_def)

lemma insert_sale_item_select: "select_product (insert_sale_item d s i q price) j = select_product d j"
  by (simp add: insert_sale_item_def select_product_def)

lemma sale_loop_append:
  "sale_loop now sid saleId (pre @ rest) d =
     (case sale_loop now sid saleId pre d of Inl e \<Rightarrow> Inl e
      | Inr d2 \<Rightarrow> sale_loop now sid saleId rest d2)"
  by (induction pre arbitrary: d) (auto split: option.splits)

lemma checkout_single:
  assumes "pm \<in> set [''cash'', ''transfer'']"
      and "select_product d (item_id it) = Some product"
      and "item_quantity it \<le> p_stock product"
  shows "fst (checkout d now [it] pm total') = Inr (next_rowid (map sale_id (sales d)))"
    and "sales (snd (checkout d now [it] pm total')) = sales d @
           [\<lparr>sale_id = next_rowid (map sale_id (sales d)),
             sale_session_id = s_id (fst (getCurrentSession d now)), sale_total = total',
             sale_payment_method = pm, sale_timestamp = now\<rparr>]"
    and "sale_items (snd (checkout d now [it] pm total')) = sale_items d @
           [\<lparr>si_id = next_rowid (map si_id (sale_items d)),
             si_sale_id = next_rowid (map sale_id (sales d)), si_product_id = item_id it,
             si_quantity = item_quantity it, si_price_at_sale = item_price it\<rparr>]"
    and "movements (snd (checkout d now [it] pm total')) = movements d @
           [\<lparr>m_id = next_rowid (map m_id (movements d)),
             m_session_id = s_id (fst (getCurrentSession d now)), m_product_id = item_id it,
             m_type = ''sale'', m_quantity = item_quantity it, m_reason = Some ''Venta'',
             m_timestamp = now\<rparr>]"
    and "select_product (snd (checkout d now [it] pm total')) j =
           (if j = item_id it then Some (product\<lparr>p_stock := p_stock product - item_quantity it\<rparr>)
            else select_product d j)"
    and "sessions (snd (checkout d now [it] pm total')) = sessions (snd (getCurrentSession d now))"
proof -
  let ?d0 = "snd (getCurrentSession d now)"
  let ?sid = "s_id (fst (getCurrentSession d now))"
  let ?d1 = "snd (insert_sale ?d0 now ?sid total' pm)"
  let ?saleId = "fst (insert_sale ?d0 now ?sid total' pm)"
  let ?d2 = "insert_movement
                    (update_products
                       (insert_sale_item ?d1 ?saleId (item_id it) (item_quantity it) (item_price it))
                       (item_id it) (\<lambda>p. p\<lparr>p_stock := p_stock p - item_quantity it\<rparr>))
                    now ?sid (item_id it) ''sale'' (item_quantity it) (Some ''Venta'')"
  have sel: "select_product ?d1 (item_id it) = Some product"
    using assms(2) by (simp add: insert_sale_select getCurrentSession_select)
  have loop: "sale_loop now ?sid ?saleId [it] ?d1 = Inr ?d2"
    using sel assms(3) by simp
  have c: "checkout d now [it] pm total' = (Inr ?saleId, ?d2)"
    using assms(1) loop by (simp add: checkout_unfold del: sale_loop.simps)
  have sid: "?saleId = next_rowid (map sale_id (sales d))"
    by (simp add: insert_sale_def Let_def getCurrentSession_sales)
  show "fst (checkout d now [it] pm total') = Inr (next_rowid (map sale_id (sales d)))"
    by (simp add: c sid)
  show "sales (snd (checkout d now [it] pm total')) = sales d @
           [\<lparr>sale_id = next_rowid (map sale_id (sales d)),
             sale_session_id = s_id (fst (getCurrentSession d now)), sale_total = total',
             sale_payment_method = pm, sale_timestamp = now\<rparr>]"
    by (simp add: c insert_movement_def update_products_def insert_sale_item_def insert_sale_def
          Let_def getCurrentSession_sales)
  show "sale_items (snd (checkout d now [it] pm total')) = sale_items d @
           [\<lparr>si_id = next_rowid (map si_id (sale_items d)),
             si_sale_id = next_rowid (map sale_id (sales d)), si_product_id = item_id it,
             si_quantity = item_quantity it, si_price_at_sale = item_price it\<rparr>]"
    by (simp add: c insert_movement_def update_products_def insert_sale_item_def insert_sale_def
          Let_def getCurrentSession_sale_items getCurrentSession_sales)
  show "movements (snd (checkout d now [it] pm total')) = movements d @
           [\<lparr>m_id = next_rowid (map m_id (movements d)),
             m_session_id = s_id (fst (getCurrentSession d now)), m_product_id = item_id it,
             m_type = ''sale'', m_quantity = item_quantity it, m_reason = Some ''Venta'',
             m_timestamp = now\<rparr>]"
    by (simp add: c insert_movement_def update_products_def insert_sale_item_def insert_sale_def
          Let_def getCurrentSession_movements)
  show "select_product (snd (checkout d now [it] pm total')) j =
           (if j = item_id it then Some (product\<lparr>p_stock := p_stock product - item_quantity it\<rparr>)
            else select_product d j)"
    using sel
    by (simp add: c insert_movement_select select_update_products insert_sale_item_select
          insert_sale_select getCurrentSession_select)
  show "sessions (snd (checkout d now [it] pm total')) = sessions (snd (getCurrentSession d now))"
    by (simp add: c insert_movement_def update_products_def insert_sale_item_def insert_sale_def
          Let_def)
qed

lemma checkout_movements:
  assumes "checkout d now items pm total' = (Inr saleId, d')"
  shows "\<exists>ms. movements d' = movements d @ ms \<and> length ms = length items
      \<and> map m_product_id ms = map item_id items
      \<and> map m_quantity ms = map item_quantity items
      \<and> list_all (\<lambda>m. m_type m = ''sale'' \<and> m_reason m = Some ''Venta''
            \<and> m_session_id m = s_id (fst (getCurrentSession d now))) ms"
proof -
  let ?d0 = "snd (getCurrentSession d now)"
  let ?sid = "s_id (fst (getCurrentSession d now))"
  let ?d1 = "snd (insert_sale ?d0 now ?sid total' pm)"
  let ?saleId = "fst (insert_sale ?d0 now ?sid total' pm)"
  from assms have l: "sale_loop now ?sid ?saleId items ?d1 = Inr d'"
    by (simp add: checkout_unfold split: if_splits sum.splits)
  have m: "movements ?d1 = movements d"
    by (simp add: insert_sale_def Let_def getCurrentSession_movements)
  from sale_loop_movements [OF l] obtain ms where
    ms: "movements d' = movements ?d1 @ ms" "map m_product_id ms = map item_id items"
      "map m_quantity ms = map item_quantity items"
      "list_all (\<lambda>m. m_type m = ''sale'' \<and> m_reason m = Some ''Venta'' \<and> m_session_id m = ?sid) ms"
    by blast
  from ms(2) have "length ms = length items"
    by (rule map_eq_imp_length_eq)
  with ms m show ?thesis by auto
qed

lemmas run_checkout =
  checkout_def getCurrentSession_def insert_session_def sale_transaction_def insert_sale_def
  select_product_def update_products_def insert_movement_def insert_sale_item_def next_rowid_def

subsection \<open>A sale of three out of five\<close>

text \<open>
  C4. With a product of stock 5 and a payment method the schema admits, the checkout of
  one item (that product, quantity 3, unit price 10) with total 30 succeeds and answers
  with the new sale's id; the product's stock is 2 afterwards and every other product
  is as before; exactly one sale row (total 30, the id of the current session), one
  sale item (quantity 3, price 10) and one movement (type \<open>sale\<close>, quantity 3, reason
  \<open>Venta\<close>) are appended. In general a successful checkout appends one movement per
  item, in order, each of type \<open>sale\<close> with reason \<open>Venta\<close> and the session's id.
\<close>

theorem checkout_three_of_five:
  fixes d :: db and a :: int and nm :: string
  defines "it \<equiv> \<lparr>item_id = a, item_name = nm, item_quantity = 3, item_price = 10\<rparr>"
  assumes "pm \<in> set [''cash'', ''transfer'']"
      and "select_product d a = Some product"
      and "p_stock product = 5"
  shows "fst (checkout d now [it] pm 30) = Inr (next_rowid (map sale_id (sales d)))
     \<and> select_product (snd (checkout d now [it] pm 30)) a = Some (product\<lparr>p_stock := 2\<rparr>)
     \<and> (\<forall>j. j \<noteq> a \<longrightarrow> select_product (snd (checkout d now [it] pm 30)) j = select_product d j)
     \<and> sales (snd (checkout d now [it] pm 30)) = sales d @
           [\<lparr>sale_id = next_rowid (map sale_id (sales d)),
             sale_session_id = s_id (fst (getCurrentSession d now)), sale_total = 30,
             sale_payment_method = pm, sale_timestamp = now\<rparr>]
     \<and> sale_items (snd (checkout d now [it] pm 30)) = sale_items d @
           [\<lparr>si_id = next_rowid (map si_id (sale_items d)),
             si_sale_id = next_rowid (map sale_id (sales d)), si_product_id = a,
             si_quantity = 3, si_price_at_sale = 10\<rparr>]
     \<and> movements (snd (checkout d now [it] pm 30)) = movements d @
           [\<lparr>m_id = next_rowid (map m_id (movements d)),
             m_session_id = s_id (fst (getCurrentSession d now)), m_product_id = a,
             m_type = ''sale'', m_quantity = 3, m_reason = Some ''Venta'',
             m_timestamp = now\<rparr>]
     \<and> (\<forall>items total' saleId d'. checkout d now items pm total' = (Inr saleId, d') \<longrightarrow>
          (\<exists>ms. movements d' = movements d @ ms \<and> length ms = length items
             \<and> map m_product_id ms = map item_id items
             \<and> map m_quantity ms = map item_quantity items
             \<and> list_all (\<lambda>m. m_type m = ''sale'' \<and> m_reason m = Some ''Venta''
                   \<and> m_session_id m = s_id (fst (getCurrentSession d now))) ms))"
proof -
  have s: "select_product d (item_id it) = Some product" "item_quantity it \<le> p_stock product"
    using assms by (simp_all add: it_def)
  note cs = checkout_single [OF assms(2) s, of now 30]
  have g: "\<forall>items total' saleId d'. checkout d now items pm total' = (Inr saleId, d') \<longrightarrow>
          (\<exists>ms. movements d' = movements d @ ms \<and> length ms = length items
             \<and> map m_product_id ms = map item_id items
             \<and> map m_quantity ms = map item_quantity items
             \<and> list_all (\<lambda>m. m_type m = ''sale'' \<and> m_reason m = Some ''Venta''
                   \<and> m_session_id m = s_id (fst (getCurrentSession d now))) ms)"
    using checkout_movements by blast
  show ?thesis
    using cs(1) cs(2) cs(3) cs(4) cs(5) g assms(4)
    by (simp add: it_def)
qed

theorem checkout_three_of_five_witness:
  "''cash'' \<in> set [''cash'', ''transfer'']
   \<and> select_product restocked_two 2 = Some \<lparr>p_id = 2, p_name = ''P2'', p_price = 5, p_stock = 5,
        p_initial_stock = 0, p_deleted = 0, p_image = None\<rparr>
   \<and> fst (checkout restocked_two 8
        [\<lparr>item_id = 2, item_name = ''P2'', item_quantity = 3, item_price = 10\<rparr>] ''cash'' 30) = Inr 1
   \<and> select_product (snd (checkout restocked_two 8
        [\<lparr>item_id = 2, item_name = ''P2'', item_quantity = 3, item_price = 10\<rparr>] ''cash'' 30)) 2 =
       Some \<lparr>p_id = 2, p_name = ''P2'', p_price = 5, p_stock = 2,
        p_initial_stock = 0, p_deleted = 0, p_image = None\<rparr>
   \<and> sales (snd (checkout restocked_two 8
        [\<lparr>item_id = 2, item_name = ''P2'', item_quantity = 3, item_price = 10\<rparr>] ''cash'' 30)) =
       [\<lparr>sale_id = 1, sale_session_id = 1, sale_total = 30, sale_payment_method = ''cash'',
         sale_timestamp = 8\<rparr>]
   \<and> sale_items (snd (checkout restocked_two 8
        [\<lparr>item_id = 2, item_name = ''P2'', item_quantity = 3, item_price = 10\<rparr>] ''cash'' 30)) =
       [\<lparr>si_id = 1, si_sale_id = 1, si_product_id = 2, si_quantity = 3, si_price_at_sale = 10\<rparr>]
   \<and> movements (snd (checkout restocked_two 8
        [\<lparr>item_id = 2, item_name = ''P2'', item_quantity = 3, item_price = 10\<rparr>] ''cash'' 30)) =
       movements restocked_two @
       [\<lparr>m_id = 2, m_session_id = 1, m_product_id = 2, m_type = ''sale'', m_quantity = 3,
         m_reason = Some ''Venta'', m_timestamp = 8\<rparr>]
   \<and> fst (checkout restocked_two 8
        [\<lparr>item_id = 1, item_name = ''P1'', item_quantity = 1, item_price = 10\<rparr>,
         \<lparr>item_id = 2, item_name = ''P2'', item_quantity = 3, item_price = 5\<rparr>] ''cash'' 25) = Inr 1
   \<and> (\<exists>ms. movements (snd (checkout restocked_two 8
        [\<lparr>item_id = 1, item_name = ''P1'', item_quantity = 1, item_price = 10\<rparr>,
         \<lparr>item_id = 2, item_name = ''P2'', item_quantity = 3, item_price = 5\<rparr>] ''cash'' 25)) =
           movements restocked_two @ ms
         \<and> length ms = 2 \<and> map m_product_id ms = [1, 2] \<and> map m_quantity ms = [1, 3]
         \<and> list_all (\<lambda>m. m_type m = ''sale'') ms)"
proof -
  let ?p = "\<lparr>p_id = 2, p_name = ''P2'', p_price = 5, p_stock = 5,
        p_initial_stock = 0, p_deleted = 0, p_image = None\<rparr>"
  let ?items = "[\<lparr>item_id = 1, item_name = ''P1'', item_quantity = 1, item_price = 10\<rparr>,
         \<lparr>item_id = 2, item_name = ''P2'', item_quantity = 3, item_price = 5\<rparr>]"
  have h1: "''cash'' \<in> set [''cash'', ''transfer'']" by simp
  have h2: "select_product restocked_two 2 = Some ?p"
    by (simp add: restocked_two_eq select_product_def)
  have h3: "p_stock ?p = 5" by simp
  have g: "s_id (fst (getCurrentSession restocked_two 8)) = 1"
    by (simp add: restocked_two_eq getCurrentSession_def)
  have e: "sales restocked_two = []" "sale_items restocked_two = []"
    "map m_id (movements restocked_two) = [1]"
    by (simp_all add: restocked_two_eq)
  note t = checkout_three_of_five [OF h1 h2 h3, of 8 "''P2''"]
  from t have a: "fst (checkout restocked_two 8
        [\<lparr>item_id = 2, item_name = ''P2'', item_quantity = 3, item_price = 10\<rparr>] ''cash'' 30) = Inr 1
   \<and> select_product (snd (checkout restocked_two 8
        [\<lparr>item_id = 2, item_name = ''P2'', item_quantity = 3, item_price = 10\<rparr>] ''cash'' 30)) 2 =
       Some \<lparr>p_id = 2, p_name = ''P2'', p_price = 5, p_stock = 2,
        p_initial_stock = 0, p_deleted = 0, p_image = None\<rparr>
   \<and> sales (snd (checkout restocked_two 8
        [\<lparr>item_id = 2, item_name = ''P2'', item_quantity = 3, item_price = 10\<rparr>] ''cash'' 30)) =
       [\<lparr>sale_id = 1, sale_session_id = 1, sale_total = 30, sale_payment_method = ''cash'',
         sale_timestamp = 8\<rparr>]
   \<and> sale_items (snd (checkout restocked_two 8
        [\<lparr>item_id = 2, item_name = ''P2'', item_quantity = 3, item_price = 10\<rparr>] ''cash'' 30)) =
       [\<lparr>si_id = 1, si_sale_id = 1, si_product_id = 2, si_quantity = 3, si_price_at_sale = 10\<rparr>]
   \<and> movements (snd (checkout restocked_two 8
        [\<lparr>item_id = 2, item_name = ''P2'', item_quantity = 3, item_price = 10\<rparr>] ''cash'' 30)) =
       movements restocked_two @
       [\<lparr>m_id = 2, m_session_id = 1, m_product_id = 2, m_type = ''sale'', m_quantity = 3,
         m_reason = Some ''Venta'', m_timestamp = 8\<rparr>]"
    by (simp add: g e next_rowid_def)
  have c: "fst (checkout restocked_two 8 ?items ''cash'' 25) = Inr 1"
    by (simp add: restocked_two_eq run_checkout)
  then have c': "checkout restocked_two 8 ?items ''cash'' 25 =
      (Inr 1, snd (checkout restocked_two 8 ?items ''cash'' 25))"
    by (simp add: prod_eq_iff)
  from t have "\<forall>items total' saleId d'.
        checkout restocked_two 8 items ''cash'' total' = (Inr saleId, d') \<longrightarrow>
          (\<exists>ms. movements d' = movements restocked_two @ ms \<and> length ms = length items
             \<and> map m_product_id ms = map item_id items
             \<and> map m_quantity ms = map item_quantity items
             \<and> list_all (\<lambda>m. m_type m = ''sale'' \<and> m_reason m = Some ''Venta''
                   \<and> m_session_id m = s_id (fst (getCurrentSession restocked_two 8))) ms)"
    by (elim conjE)
  from this [rule_format, OF c'] obtain ms where
    ms: "movements (snd (checkout restocked_two 8 ?items ''cash'' 25)) = movements restocked_two @ ms"
      "length ms = length ?items" "map m_product_id ms = map item_id ?items"
      "map m_quantity ms = map item_quantity ?items"
      "list_all (\<lambda>m. m_type m = ''sale'' \<and> m_reason m = Some ''Venta''
                   \<and> m_session_id m = s_id (fst (getCurrentSession restocked_two 8))) ms"
    by blast
  from ms(5) have l: "list_all (\<lambda>m. m_type m = ''sale'') ms"
    by (simp add: list_all_iff)
  have b: "\<exists>ms. movements (snd (checkout restocked_two 8 ?items ''cash'' 25)) =
           movements restocked_two @ ms
         \<and> length ms = 2 \<and> map m_product_id ms = [1, 2] \<and> map m_quantity ms = [1, 3]
         \<and> list_all (\<lambda>m. m_type m = ''sale'') ms"
    using ms(1,2,3,4) l by (intro exI [of _ ms]) simp
  from h1 h2 a c b show ?thesis by blast
qed

subsection \<open>What checkout does not check\<close>





subsection \<open>A failed stock check rolls the sale back\<close>

text \<open>
  C2. Let the checkout run on a list \<open>pre @ it # post\<close>: the session is fetched (\<open>d0\<close>),
  the sale row inserted, the items of \<open>pre\<close> processed, and then the quantity of \<open>it\<close>
  exceeds the stock its product has at that moment. Then the answer is 400
  \<open>Insufficient stock for\<close> the item's name, and the database after the call is \<open>d0\<close>:
  the sale row, the sale items, the stock decrements and the movements of \<open>pre\<close> are
  gone. \<open>d0\<close> has the products, sales, sale items and movements of the database before
  the call, and is that database when a session was open.
\<close>

theorem failed_stock_check_rolls_back:
  assumes "pm \<in> set [''cash'', ''transfer'']"
      and "getCurrentSession d now = (session, d0)"
      and "insert_sale d0 now (s_id session) total' pm = (saleId, d1)"
      and "sale_loop now (s_id session) saleId pre d1 = Inr d2"
      and "select_product d2 (item_id it) = Some product"
      and "p_stock product < item_quantity it"
  shows "checkout d now (pre @ it # post) pm total' =
           (Inl (HttpError 400 (''Insufficient stock for '' @ item_name it)), d0)
       \<and> products d0 = products d \<and> sales d0 = sales d
       \<and> sale_items d0 = sale_items d \<and> movements d0 = movements d
       \<and> (\<forall>s. latest_open (sessions d) = Some s \<longrightarrow> d0 = d)"
proof -
  have d0: "d0 = snd (getCurrentSession d now)" and s: "session = fst (getCurrentSession d now)"
    using assms(2) by simp_all
  have l: "sale_loop now (s_id session) saleId (pre @ it # post) d1 =
      Inl (HttpError 400 (''Insufficient stock for '' @ item_name it))"
    using assms(4,5,6) by (simp add: sale_loop_append)
  have "checkout d now (pre @ it # post) pm total' =
           (Inl (HttpError 400 (''Insufficient stock for '' @ item_name it)), d0)"
    using assms(1,3) l unfolding d0 s
    by (simp add: checkout_unfold del: sale_loop.simps)
  moreover have "\<forall>s. latest_open (sessions d) = Some s \<longrightarrow> d0 = d"
    using assms(2) by (auto simp: getCurrentSession_open)
  ultimately show ?thesis
    by (simp add: d0 getCurrentSession_frame)
qed

theorem failed_stock_check_rolls_back_witness:
  "getCurrentSession two_products 7 =
      (\<lparr>s_id = 1, s_start_time = 7, s_end_time = None, s_is_closed = 0\<rparr>,
       two_products\<lparr>sessions := [\<lparr>s_id = 1, s_start_time = 7, s_end_time = None, s_is_closed = 0\<rparr>]\<rparr>)
   \<and> checkout two_products 7
        [\<lparr>item_id = 1, item_name = ''P1'', item_quantity = 1, item_price = 10\<rparr>,
         \<lparr>item_id = 2, item_name = ''P2'', item_quantity = 1, item_price = 5\<rparr>] ''cash'' 15 =
       (Inl (HttpError 400 ''Insufficient stock for P2''),
        two_products\<lparr>sessions := [\<lparr>s_id = 1, s_start_time = 7, s_end_time = None, s_is_closed = 0\<rparr>]\<rparr>)
   \<and> select_product (snd (checkout two_products 7
        [\<lparr>item_id = 1, item_name = ''P1'', item_quantity = 1, item_price = 10\<rparr>,
         \<lparr>item_id = 2, item_name = ''P2'', item_quantity = 1, item_price = 5\<rparr>] ''cash'' 15)) 1 =
       Some \<lparr>p_id = 1, p_name = ''P1'', p_price = 10, p_stock = 2,
         p_initial_stock = 2, p_deleted = 0, p_image = None\<rparr>
   \<and> latest_open (sessions restocked_two) =
       Some \<lparr>s_id = 1, s_start_time = 7, s_end_time = None, s_is_closed = 0\<rparr>
   \<and> checkout restocked_two 8
        [\<lparr>item_id = 1, item_name = ''P1'', item_quantity = 1, item_price = 10\<rparr>,
         \<lparr>item_id = 2, item_name = ''P2'', item_quantity = 6, item_price = 5\<rparr>] ''transfer'' 40 =
       (Inl (HttpError 400 ''Insufficient stock for P2''), restocked_two)"
proof -
  let ?s = "\<lparr>s_id = 1, s_start_time = 7, s_end_time = None, s_is_closed = 0\<rparr>"
  let ?d0 = "two_products\<lparr>sessions := [?s]\<rparr>"
  let ?i1 = "\<lparr>item_id = 1, item_name = ''P1'', item_quantity = 1, item_price = 10\<rparr>"
  let ?i2 = "\<lparr>item_id = 2, item_name = ''P2'', item_quantity = 1, item_price = 5\<rparr>"
  let ?i6 = "\<lparr>item_id = 2, item_name = ''P2'', item_quantity = 6, item_price = 5\<rparr>"
  let ?p1 = "\<lparr>p_id = 1, p_name = ''P1'', p_price = 10, p_stock = 2, p_initial_stock = 2,
         p_deleted = 0, p_image = None\<rparr>"
  let ?p2 = "\<lparr>p_id = 2, p_name = ''P2'', p_price = 5, p_stock = 0, p_initial_stock = 0,
         p_deleted = 0, p_image = None\<rparr>"
  let ?sale = "\<lparr>sale_id = 1, sale_session_id = 1, sale_total = 15,
         sale_payment_method = ''cash'', sale_timestamp = 7\<rparr>"
  let ?d1 = "\<lparr>sessions = [?s], products = [?p1, ?p2], movements = [], sales = [?sale],
         sale_items = []\<rparr>"
  let ?d2 = "\<lparr>sessions = [?s], products = [?p1\<lparr>p_stock := 1\<rparr>, ?p2],
         movements = [\<lparr>m_id = 1, m_session_id = 1, m_product_id = 1, m_type = ''sale'',
           m_quantity = 1, m_reason = Some ''Venta'', m_timestamp = 7\<rparr>],
         sales = [?sale],
         sale_items = [\<lparr>si_id = 1, si_sale_id = 1, si_product_id = 1, si_quantity = 1,
           si_price_at_sale = 10\<rparr>]\<rparr>"
  have h1: "''cash'' \<in> set [''cash'', ''transfer'']" by simp
  have h2: "getCurrentSession two_products 7 = (?s, ?d0)"
    by (simp add: two_products_eq getCurrentSession_def insert_session_def next_rowid_def)
  have h3: "insert_sale ?d0 7 (s_id ?s) 15 ''cash'' = (1, ?d1)"
    by (simp add: two_products_eq insert_sale_def next_rowid_def)
  have h4: "sale_loop 7 (s_id ?s) 1 [?i1] ?d1 = Inr ?d2"
    by (simp add: select_product_def update_products_def insert_movement_def
          insert_sale_item_def next_rowid_def)
  have h5: "select_product ?d2 (item_id ?i2) = Some ?p2"
    by (simp add: select_product_def)
  have h6: "p_stock ?p2 < item_quantity ?i2" by simp
  have sel: "select_product two_products 1 = Some ?p1"
    by (simp add: two_products_eq select_product_def)
  from failed_stock_check_rolls_back [OF h1 h2 h3 h4 h5 h6, of "[]"] h2 sel
  have a: "checkout two_products 7 [?i1, ?i2] ''cash'' 15 =
       (Inl (HttpError 400 ''Insufficient stock for P2''), ?d0)
     \<and> select_product (snd (checkout two_products 7 [?i1, ?i2] ''cash'' 15)) 1 = Some ?p1"
    by (simp add: select_product_def)
  let ?q2 = "\<lparr>p_id = 2, p_name = ''P2'', p_price = 5, p_stock = 5, p_initial_stock = 0,
         p_deleted = 0, p_image = None\<rparr>"
  let ?entry = "\<lparr>m_id = 1, m_session_id = 1, m_product_id = 2, m_type = ''entry'',
        m_quantity = 5, m_reason = None, m_timestamp = 7\<rparr>"
  let ?sale' = "\<lparr>sale_id = 1, sale_session_id = 1, sale_total = 40,
         sale_payment_method = ''transfer'', sale_timestamp = 8\<rparr>"
  let ?e1 = "\<lparr>sessions = [?s], products = [?p1, ?q2], movements = [?entry], sales = [?sale'],
         sale_items = []\<rparr>"
  let ?e2 = "\<lparr>sessions = [?s], products = [?p1\<lparr>p_stock := 1\<rparr>, ?q2],
         movements = [?entry, \<lparr>m_id = 2, m_session_id = 1, m_product_id = 1, m_type = ''sale'',
           m_quantity = 1, m_reason = Some ''Venta'', m_timestamp = 8\<rparr>],
         sales = [?sale'],
         sale_items = [\<lparr>si_id = 1, si_sale_id = 1, si_product_id = 1, si_quantity = 1,
           si_price_at_sale = 10\<rparr>]\<rparr>"
  have k0: "latest_open (sessions restocked_two) = Some ?s"
    by (simp add: restocked_two_eq)
  have k1: "''transfer'' \<in> set [''cash'', ''transfer'']" by simp
  have k2: "getCurrentSession restocked_two 8 = (?s, restocked_two)"
    by (rule getCurrentSession_open [OF k0])
  have k3: "insert_sale restocked_two 8 (s_id ?s) 40 ''transfer'' = (1, ?e1)"
    by (simp add: restocked_two_eq insert_sale_def next_rowid_def)
  have k4: "sale_loop 8 (s_id ?s) 1 [?i1] ?e1 = Inr ?e2"
    by (simp add: select_product_def update_products_def insert_movement_def
          insert_sale_item_def next_rowid_def)
  have k5: "select_product ?e2 (item_id ?i6) = Some ?q2"
    by (simp add: select_product_def)
  have k6: "p_stock ?q2 < item_quantity ?i6" by simp
  from failed_stock_check_rolls_back [OF k1 k2 k3 k4 k5 k6, of "[]"]
  have b: "checkout restocked_two 8 [?i1, ?i6] ''transfer'' 40 =
       (Inl (HttpError 400 ''Insufficient stock for P2''), restocked_two)"
    by simp
  from h2 a k0 b show ?thesis
    by (elim conjE) (intro conjI)
qed

text \<open>
  The same with the stocks read before the call. When every item names a stored product
  and no quantity is negative, the stock an item meets is at most the stock before the
  call; so if some item's quantity exceeds the stock its product has before the call,
  the checkout fails with \<open>Insufficient stock for\<close> the name of one of the items, and
  the database is the one \<open>getCurrentSession\<close> left.
\<close>

lemma sale_step_select:
  "select_product
     (insert_movement
        (update_products (insert_sale_item d saleId i q price) i
           (\<lambda>p. p\<lparr>p_stock := p_stock p - q\<rparr>))
        now sid i ty q r) j =
   (if j = i then map_option (\<lambda>p. p\<lparr>p_stock := p_stock p - q\<rparr>) (select_product d i)
    else select_product d j)"
  by (simp add: insert_movement_select select_update_products insert_sale_item_select)

lemma sale_loop_short:
  assumes "\<forall>it\<in>set items. select_product d (item_id it) \<noteq> None \<and> 0 \<le> item_quantity it"
      and "\<exists>it\<in>set items. \<exists>p. select_product d (item_id it) = Some p \<and> p_stock p < item_quantity it"
  shows "\<exists>it\<in>set items. sale_loop now sid saleId items d =
           Inl (HttpError 400 (''Insufficient stock for '' @ item_name it))"
  using assms
proof (induction items arbitrary: d)
  case Nil
  then show ?case by simp
next
  case (Cons x xs)
  from Cons.prems(1) obtain p where p: "select_product d (item_id x) = Some p"
    and q: "0 \<le> item_quantity x"
    by auto
  show ?case
  proof (cases "p_stock p < item_quantity x")
    case True
    with p show ?thesis by simp
  next
    case False
    let ?d' = "insert_movement
        (update_products (insert_sale_item d saleId (item_id x) (item_quantity x) (item_price x))
           (item_id x) (\<lambda>p. p\<lparr>p_stock := p_stock p - item_quantity x\<rparr>))
        now sid (item_id x) ''sale'' (item_quantity x) (Some ''Venta'')"
    have step: "sale_loop now sid saleId (x # xs) d = sale_loop now sid saleId xs ?d'"
      using p False by simp
    have 1: "\<forall>it\<in>set xs. select_product ?d' (item_id it) \<noteq> None \<and> 0 \<le> item_quantity it"
      using Cons.prems(1) p by (simp add: sale_step_select)
    from Cons.prems(2) obtain it p' where it: "it \<in> set (x # xs)"
      "select_product d (item_id it) = Some p'" "p_stock p' < item_quantity it"
      by blast
    have "it \<noteq> x"
      using it(2,3) p False by auto
    with it(1) have mem: "it \<in> set xs" by simp
    have "\<exists>p. select_product ?d' (item_id it) = Some p \<and> p_stock p < item_quantity it"
      using it(2,3) p q by (auto simp: sale_step_select)
    with mem have 2: "\<exists>it\<in>set xs. \<exists>p. select_product ?d' (item_id it) = Some p
        \<and> p_stock p < item_quantity it"
      by blast
    from Cons.IH [OF 1 2] step show ?thesis by auto
  qed
qed

lemma short_of_stock_before_the_call:
  assumes "pm \<in> set [''cash'', ''transfer'']"
      and "\<forall>it\<in>set items. select_product d (item_id it) \<noteq> None \<and> 0 \<le> item_quantity it"
      and "\<exists>it\<in>set items. \<exists>p. select_product d (item_id it) = Some p \<and> p_stock p < item_quantity it"
  shows "\<exists>it\<in>set items. checkout d now items pm total' =
           (Inl (HttpError 400 (''Insufficient stock for '' @ item_name it)),
            snd (getCurrentSession d now))"
proof -
  let ?d0 = "snd (getCurrentSession d now)"
  let ?sid = "s_id (fst (getCurrentSession d now))"
  let ?d1 = "snd (insert_sale ?d0 now ?sid total' pm)"
  let ?saleId = "fst (insert_sale ?d0 now ?sid total' pm)"
  have s: "select_product ?d1 j = select_product d j" for j
    by (simp add: insert_sale_select getCurrentSession_select)
  from sale_loop_short [of items ?d1 now ?sid ?saleId] assms(2,3)
  obtain it where "it \<in> set items" "sale_loop now ?sid ?saleId items ?d1 =
           Inl (HttpError 400 (''Insufficient stock for '' @ item_name it))"
    by (auto simp: s)
  with assms(1) show ?thesis
    by (intro bexI [of _ it]) (simp_all add: checkout_unfold)
qed

subsection \<open>The stock invariant\<close>

lemma key_find_unique:
  assumes "products_key d" "select_product d i = Some p" "q \<in> set (products d)" "p_id q = i"
  shows "q = p"
proof -
  from assms(2) have "p \<in> set (products d)" "p_id p = i"
    by (simp_all add: select_in_set)
  moreover from assms(1) have "inj_on p_id (set (products d))"
    by (simp add: products_key_def distinct_map)
  ultimately show ?thesis
    using assms(3,4) by (auto dest: inj_onD)
qed

lemma map_key_update:
  "(\<And>p. g (f p) = g p) \<Longrightarrow> map g (map (\<lambda>p. if g p = i then f p else p) ps) = map g ps"
  by (induction ps) auto

lemma key_update:
  "(\<And>p. p_id (f p) = p_id p) \<Longrightarrow> products_key (update_products d i f) = products_key d"
  using map_key_update [of p_id f i "products d"]
  by (simp add: products_key_def update_products_def del: map_map)

lemma nonneg_update_const:
  "stocks_nonneg d \<Longrightarrow> 0 \<le> n \<Longrightarrow> stocks_nonneg (update_products d i (\<lambda>p. p\<lparr>p_stock := n\<rparr>))"
  by (auto simp: stocks_nonneg_def update_products_def list_all_iff)

lemma nonneg_update_sub:
  assumes "products_key d" "stocks_nonneg d" "select_product d i = Some p" "q \<le> p_stock p"
  shows "stocks_nonneg (update_products d i (\<lambda>p. p\<lparr>p_stock := p_stock p - q\<rparr>))"
proof -
  have "0 \<le> p_stock r - q" if "r \<in> set (products d)" "p_id r = i" for r
    using key_find_unique [OF assms(1,3) that] assms(4) by simp
  with assms(2) show ?thesis
    by (auto simp: stocks_nonneg_def update_products_def list_all_iff)
qed

lemma inv_products_cong:
  "products d' = products d \<Longrightarrow> stocks_nonneg d' = stocks_nonneg d"
  "products d' = products d \<Longrightarrow> products_key d' = products_key d"
  by (simp_all add: stocks_nonneg_def products_key_def)

lemma select_stock_nonneg: "stocks_nonneg d \<Longrightarrow> select_product d i = Some p \<Longrightarrow> 0 \<le> p_stock p"
  using select_in_set [of d i p] by (auto simp: stocks_nonneg_def list_all_iff)

lemma move_transaction_inv:
  assumes "products_key d" "stocks_nonneg d" "0 \<le> n"
  shows "products_key (snd (move_transaction d now sid pid ty q reason n))
       \<and> stocks_nonneg (snd (move_transaction d now sid pid ty q reason n))"
proof (cases "ty \<in> set [''entry'', ''waste'', ''sale'']")
  case True
  have p: "products (insert_movement (update_products d pid (\<lambda>p. p\<lparr>p_stock := n\<rparr>)) now sid pid ty q reason)
      = products (update_products d pid (\<lambda>p. p\<lparr>p_stock := n\<rparr>))"
    by (simp add: insert_movement_products)
  show ?thesis
    using True assms inv_products_cong [OF p] key_update [of "\<lambda>p. p\<lparr>p_stock := n\<rparr>" d pid]
      nonneg_update_const [of d n pid]
    by (simp add: move_transaction_def)
next
  case False
  with assms show ?thesis by (simp add: move_transaction_def)
qed

lemma recordMovement_inv:
  assumes "products_key d" "stocks_nonneg d" "ty = ''entry'' \<longrightarrow> 0 \<le> q"
  shows "products_key (snd (recordMovement d now pid ty q reason))
       \<and> stocks_nonneg (snd (recordMovement d now pid ty q reason))"
proof -
  let ?d1 = "snd (getCurrentSession d now)"
  have i1: "products_key ?d1" "stocks_nonneg ?d1"
    using assms(1,2) inv_products_cong [OF getCurrentSession_products [of d now]] by simp_all
  show ?thesis
  proof (cases "select_product ?d1 pid")
    case None
    with i1 show ?thesis by (simp add: recordMovement_def split_beta)
  next
    case (Some product)
    have s: "0 \<le> p_stock product"
      using select_stock_nonneg [OF i1(2) Some] .
    show ?thesis
      using Some i1 s assms(3)
        move_transaction_inv [OF i1, of "p_stock product + q"]
        move_transaction_inv [OF i1, of "p_stock product - q"]
        move_transaction_inv [OF i1, of "p_stock product"]
      by (simp add: recordMovement_def split_beta)
  qed
qed

lemma sale_loop_inv:
  "sale_loop now sid saleId items d = Inr d' \<Longrightarrow> products_key d \<Longrightarrow> stocks_nonneg d \<Longrightarrow>
   products_key d' \<and> stocks_nonneg d'"
proof (induction items arbitrary: d)
  case Nil
  then show ?case by simp
next
  case (Cons it items)
  from Cons.prems(1) obtain product where
    sel: "select_product d (item_id it) = Some product" and
    ok: "item_quantity it \<le> p_stock product"
    by (auto split: option.splits if_splits)
  let ?d0 = "insert_sale_item d saleId (item_id it) (item_quantity it) (item_price it)"
  let ?d1 = "update_products ?d0 (item_id it) (\<lambda>p. p\<lparr>p_stock := p_stock p - item_quantity it\<rparr>)"
  let ?d2 = "insert_movement ?d1 now sid (item_id it) ''sale'' (item_quantity it) (Some ''Venta'')"
  have l: "sale_loop now sid saleId items ?d2 = Inr d'"
    using Cons.prems(1) sel ok by simp
  have p0: "products ?d0 = products d"
    by (simp add: insert_sale_item_def)
  have i0: "products_key ?d0" "stocks_nonneg ?d0"
    using Cons.prems(2,3) inv_products_cong [OF p0] by simp_all
  have s0: "select_product ?d0 (item_id it) = Some product"
    using sel by (simp add: insert_sale_item_select)
  have i1: "products_key ?d1" "stocks_nonneg ?d1"
    using i0 key_update [of "\<lambda>p. p\<lparr>p_stock := p_stock p - item_quantity it\<rparr>" ?d0 "item_id it"]
      nonneg_update_sub [OF i0 s0 ok]
    by simp_all
  have i2: "products_key ?d2" "stocks_nonneg ?d2"
    using i1 inv_products_cong [OF insert_movement_products [of ?d1 now sid "item_id it" "''sale''" "item_quantity it" "Some ''Venta''"]]
    by simp_all
  from Cons.IH [OF l i2] show ?case .
qed

lemma checkout_success:
  assumes "fst (checkout d now items pm total') = Inr saleId"
  shows "sale_loop now (s_id (fst (getCurrentSession d now)))
           (fst (insert_sale (snd (getCurrentSession d now)) now
                  (s_id (fst (getCurrentSession d now))) total' pm))
           items
           (snd (insert_sale (snd (getCurrentSession d now)) now
                  (s_id (fst (getCurrentSession d now))) total' pm)) =
         Inr (snd (checkout d now items pm total'))"
proof (cases "pm \<in> set [''cash'', ''transfer'']")
  case True
  show ?thesis
  proof (cases "sale_loop now (s_id (fst (getCurrentSession d now)))
           (fst (insert_sale (snd (getCurrentSession d now)) now
                  (s_id (fst (getCurrentSession d now))) total' pm))
           items
           (snd (insert_sale (snd (getCurrentSession d now)) now
                  (s_id (fst (getCurrentSession d now))) total' pm))")
    case (Inl e)
    with True assms show ?thesis by (simp add: checkout_unfold)
  next
    case (Inr d2)
    with True show ?thesis by (simp add: checkout_unfold)
  qed
next
  case False
  with assms show ?thesis by (simp add: checkout_unfold)
qed

lemma checkout_inv:
  assumes "products_key d" "stocks_nonneg d"
  shows "products_key (snd (checkout d now items pm total'))
       \<and> stocks_nonneg (snd (checkout d now items pm total'))"
proof -
  let ?d0 = "snd (getCurrentSession d now)"
  let ?sid = "s_id (fst (getCurrentSession d now))"
  let ?d1 = "snd (insert_sale ?d0 now ?sid total' pm)"
  have i0: "products_key ?d0" "stocks_nonneg ?d0"
    using assms inv_products_cong [OF getCurrentSession_products [of d now]] by simp_all
  have p1: "products ?d1 = products ?d0"
    by (simp add: insert_sale_def Let_def)
  have i1: "products_key ?d1" "stocks_nonneg ?d1"
    using i0 inv_products_cong [OF p1] by simp_all
  show ?thesis
  proof (cases "fst (checkout d now items pm total')")
    case (Inl e)
    from checkout_fail [OF Inl] i0 show ?thesis by simp
  next
    case (Inr saleId)
    from sale_loop_inv [OF checkout_success [OF Inr] i1] show ?thesis .
  qed
qed

lemma handle_stock_inv:
  assumes "products_key d" "stocks_nonneg d" "stock_request (snd r)"
  shows "products_key (handle d r) \<and> stocks_nonneg (handle d r)"
proof (cases r)
  case (Pair now req)
  show ?thesis
  proof (cases req)
    case (RecordMovement pid ty q reason)
    with Pair assms recordMovement_inv [OF assms(1,2), of ty q now pid reason] show ?thesis by simp
  next
    case (Checkout items pm total')
    with Pair checkout_inv [OF assms(1,2)] show ?thesis by simp
  qed (use Pair assms(3) in simp_all)
qed

text \<open>
  C1, as the code has it. Let the product ids be distinct (the primary key) and every
  stock be at least 0. After any sequence of \<open>recordMovement\<close> and \<open>checkout\<close> calls in
  which every movement of type \<open>entry\<close> has a quantity that is not negative, accepted or
  rejected, every stock is at least 0 again. Waste and sale quantities are not
  restricted: neither a waste nor a sale drives a stock below 0.
\<close>

theorem stock_stays_nonneg:
  assumes "products_key d" and "stocks_nonneg d"
      and "list_all (\<lambda>r. stock_request (snd r)) reqs"
  shows "stocks_nonneg (run d reqs) \<and> products_key (run d reqs)"
  using assms
proof (induction reqs arbitrary: d)
  case Nil
  then show ?case by (simp add: run_def)
next
  case (Cons r reqs)
  from Cons.prems have "products_key (handle d r) \<and> stocks_nonneg (handle d r)"
    by (simp add: handle_stock_inv)
  with Cons.IH [of "handle d r"] Cons.prems(3) show ?case
    by (simp add: run_def)
qed

theorem stock_stays_nonneg_witness:
  "products_key (shop 3) \<and> stocks_nonneg (shop 3)
   \<and> list_all (\<lambda>r. stock_request (snd r)) busy_day
   \<and> stocks_nonneg (run (shop 3) busy_day)
   \<and> products (run (shop 3) busy_day) =
        [\<lparr>p_id = 1, p_name = ''A'', p_price = 10, p_stock = 4, p_initial_stock = 3,
          p_deleted = 0, p_image = None\<rparr>]"
proof -
  have h1: "products_key (shop 3)"
    by (simp add: shop_eq products_key_def)
  have h2: "stocks_nonneg (shop 3)"
    by (simp add: shop_eq stocks_nonneg_def)
  have h3: "list_all (\<lambda>r. stock_request (snd r)) busy_day"
    by (simp add: busy_day_def)
  have e: "products (run (shop 3) busy_day) =
        [\<lparr>p_id = 1, p_name = ''A'', p_price = 10, p_stock = 4, p_initial_stock = 3,
          p_deleted = 0, p_image = None\<rparr>]"
    by (simp add: busy_day_def run_def shop_eq recordMovement_def move_transaction_def
          run_checkout)
  from stock_stays_nonneg [OF h1 h2 h3] h1 h2 h3 e show ?thesis
    by (elim conjE) (intro conjI)
qed

text \<open>
  The claim as stated fails: an entry of quantity \<open>- 5\<close> on the product of stock 3 is
  accepted, answered with the new stock \<open>- 2\<close>, and the stored stock is \<open>- 2\<close>.
\<close>

theorem negative_entry_drives_stock_negative:
  "products_key (shop 3) \<and> stocks_nonneg (shop 3)
   \<and> fst (recordMovement (shop 3) 7 1 ''entry'' (- 5) None) = Inr (- 2)
   \<and> products (run (shop 3) [(7, RecordMovement 1 ''entry'' (- 5) None)]) =
        [\<lparr>p_id = 1, p_name = ''A'', p_price = 10, p_stock = - 2, p_initial_stock = 3,
          p_deleted = 0, p_image = None\<rparr>]
   \<and> \<not> stocks_nonneg (run (shop 3) [(7, RecordMovement 1 ''entry'' (- 5) None)])"
  by (simp add: shop_eq products_key_def stocks_nonneg_def run_def recordMovement_def
        move_transaction_def run_checkout)

subsection \<open>Exactly one open session\<close>

lemma latest_open_None: "latest_open ss = None \<longleftrightarrow> filter (\<lambda>s. s_is_closed s = 0) ss = []"
  by (induction ss) (auto split: option.splits)

lemma latest_open_Some: "latest_open ss = Some s \<Longrightarrow> s \<in> set ss \<and> s_is_closed s = 0"
  by (induction ss arbitrary: s) (auto split: option.splits if_splits)

lemma latest_open_single:
  assumes "filter (\<lambda>s. s_is_closed s = 0) ss = [s]"
  shows "latest_open ss = Some s"
proof (cases "latest_open ss")
  case None
  with assms show ?thesis by (simp add: latest_open_None)
next
  case (Some t)
  from latest_open_Some [OF Some] have "t \<in> set (filter (\<lambda>s. s_is_closed s = 0) ss)"
    by simp
  with assms Some show ?thesis by simp
qed

lemma getCurrentSession_one:
  assumes "length (open_sessions d) \<le> 1"
  shows "open_sessions (snd (getCurrentSession d now)) = [fst (getCurrentSession d now)]"
proof (cases "latest_open (sessions d)")
  case None
  then have "open_sessions d = []"
    by (simp add: latest_open_None open_sessions_def)
  with None show ?thesis
    by (simp add: getCurrentSession_def insert_session_def Let_def open_sessions_def)
next
  case (Some s)
  from latest_open_Some [OF Some] have "s \<in> set (open_sessions d)"
    by (simp add: open_sessions_def)
  with assms have "open_sessions d = [s]"
    by (cases "open_sessions d") auto
  with Some show ?thesis
    by (simp add: getCurrentSession_def)
qed

lemma close_all_open:
  assumes "filter (\<lambda>s. s_is_closed s = 0) ss = [session]"
  shows "filter (\<lambda>s. s_is_closed s = 0)
           (map (\<lambda>s. if s_id s = s_id session
                      then s\<lparr>s_is_closed := 1, s_end_time := Some now\<rparr> else s) ss) = []"
proof -
  have "r = session" if "r \<in> set ss" "s_is_closed r = 0" for r
  proof -
    from that have "r \<in> set (filter (\<lambda>s. s_is_closed s = 0) ss)" by simp
    with assms show ?thesis by simp
  qed
  then show ?thesis
    by (auto simp: filter_empty_conv)
qed

lemma closeSession_unfold:
  "closeSession d now =
     ((s_id (fst (getCurrentSession d now)),
       next_rowid (map s_id (sessions (snd (getCurrentSession d now))))),
      (snd (getCurrentSession d now))\<lparr>sessions :=
         map (\<lambda>s. if s_id s = s_id (fst (getCurrentSession d now))
                   then s\<lparr>s_is_closed := 1, s_end_time := Some now\<rparr> else s)
             (sessions (snd (getCurrentSession d now))) @
         [\<lparr>s_id = next_rowid (map s_id (sessions (snd (getCurrentSession d now)))),
           s_start_time = now, s_end_time = None, s_is_closed = 0\<rparr>]\<rparr>)"
  using map_key_update [of s_id "\<lambda>s. s\<lparr>s_is_closed := 1, s_end_time := Some now\<rparr>"
      "s_id (fst (getCurrentSession d now))" "sessions (snd (getCurrentSession d now))"]
  by (simp add: closeSession_def insert_session_def Let_def split_beta del: map_map)

lemma closeSession_open:
  assumes "length (open_sessions d) \<le> 1"
  shows "open_sessions (snd (closeSession d now)) =
     [\<lparr>s_id = snd (fst (closeSession d now)), s_start_time = now, s_end_time = None,
       s_is_closed = 0\<rparr>]"
proof -
  from getCurrentSession_one [OF assms, of now]
  have "filter (\<lambda>s. s_is_closed s = 0) (sessions (snd (getCurrentSession d now))) =
      [fst (getCurrentSession d now)]"
    by (simp add: open_sessions_def)
  from close_all_open [OF this, of now] show ?thesis
    by (simp add: closeSession_unfold open_sessions_def)
qed

lemma closeSession_ids:
  assumes "length (open_sessions d) \<le> 1"
  shows "fst (fst (closeSession d now)) < snd (fst (closeSession d now))"
proof -
  from getCurrentSession_one [OF assms, of now]
  have "fst (getCurrentSession d now) \<in> set (open_sessions (snd (getCurrentSession d now)))"
    by simp
  then have "s_id (fst (getCurrentSession d now)) \<in> set (map s_id (sessions (snd (getCurrentSession d now))))"
    by (auto simp: open_sessions_def)
  from next_rowid_fresh [OF this] show ?thesis
    by (simp add: closeSession_unfold)
qed

lemma closeSession_closed:
  assumes "length (open_sessions d) \<le> 1"
  shows "(\<exists>s\<in>set (sessions (snd (closeSession d now))). s_id s = fst (fst (closeSession d now)))
       \<and> (\<forall>s\<in>set (sessions (snd (closeSession d now))). s_id s = fst (fst (closeSession d now)) \<longrightarrow>
            s_is_closed s = 1 \<and> s_end_time s = Some now)"
proof -
  let ?cur = "fst (getCurrentSession d now)"
  from getCurrentSession_one [OF assms, of now]
  have "?cur \<in> set (open_sessions (snd (getCurrentSession d now)))"
    by simp
  then have m: "?cur \<in> set (sessions (snd (getCurrentSession d now)))"
    by (simp add: open_sessions_def)
  from closeSession_ids [OF assms, of now]
  have ne: "s_id ?cur \<noteq> next_rowid (map s_id (sessions (snd (getCurrentSession d now))))"
    by (simp add: closeSession_unfold)
  let ?g = "\<lambda>s. if s_id s = s_id ?cur then s\<lparr>s_is_closed := 1, s_end_time := Some now\<rparr> else s"
  from m have "?g ?cur \<in> ?g ` set (sessions (snd (getCurrentSession d now)))"
    by (rule imageI)
  then have "?cur\<lparr>s_is_closed := 1, s_end_time := Some now\<rparr> \<in> set (sessions (snd (closeSession d now)))"
    by (simp add: closeSession_unfold)
  moreover have "s_id (?cur\<lparr>s_is_closed := 1, s_end_time := Some now\<rparr>) = fst (fst (closeSession d now))"
    by (simp add: closeSession_unfold)
  ultimately have ex: "\<exists>s\<in>set (sessions (snd (closeSession d now))). s_id s = fst (fst (closeSession d now))"
    by (rule bexI [rotated])
  have al: "\<forall>s\<in>set (sessions (snd (closeSession d now))). s_id s = fst (fst (closeSession d now)) \<longrightarrow>
            s_is_closed s = 1 \<and> s_end_time s = Some now"
    using ne by (auto simp: closeSession_unfold)
  from ex al show ?thesis ..
qed

lemma getCurrentSession_after_close:
  assumes "length (open_sessions d) \<le> 1"
  shows "getCurrentSession (snd (closeSession d now)) now' =
     (\<lparr>s_id = snd (fst (closeSession d now)), s_start_time = now, s_end_time = None,
       s_is_closed = 0\<rparr>, snd (closeSession d now))"
  using latest_open_single [of "sessions (snd (closeSession d now))"]
    closeSession_open [OF assms, of now]
  by (simp add: getCurrentSession_def open_sessions_def)

lemma move_transaction_sessions:
  "sessions (snd (move_transaction d now sid pid ty q reason n)) = sessions d"
  by (simp add: move_transaction_def insert_movement_def update_products_def)

lemma recordMovement_sessions:
  "sessions (snd (recordMovement d now pid ty q reason)) = sessions (snd (getCurrentSession d now))"
  by (simp add: recordMovement_def split_beta move_transaction_sessions split: option.splits)

lemma checkout_sessions:
  "sessions (snd (checkout d now items pm total')) = sessions (snd (getCurrentSession d now))"
proof (cases "fst (checkout d now items pm total')")
  case (Inl e)
  from checkout_fail [OF Inl] show ?thesis by simp
next
  case (Inr saleId)
  from sale_loop_sessions [OF checkout_success [OF Inr]] show ?thesis
    by (simp add: insert_sale_def Let_def)
qed

lemma product_requests_sessions:
  "sessions (snd (addProduct d name price stock)) = sessions d"
  "sessions (snd (updateProduct d i name price stock)) = sessions d"
  "sessions (snd (softDeleteProduct d i)) = sessions d"
  by (simp_all add: addProduct_def updateProduct_def softDeleteProduct_def update_products_def
        Let_def split: option.splits)

lemma handle_sessions:
  "open_sessions (handle d r) =
     (if uses_session (snd r)
      then (case snd r of CloseSession \<Rightarrow> open_sessions (snd (closeSession d (fst r)))
            | _ \<Rightarrow> open_sessions (snd (getCurrentSession d (fst r))))
      else open_sessions d)"
proof (cases r)
  case (Pair now req)
  then show ?thesis
    by (cases req)
       (simp_all add: open_sessions_def recordMovement_sessions checkout_sessions
          product_requests_sessions)
qed

lemma handle_open:
  assumes "length (open_sessions d) \<le> 1"
  shows "length (open_sessions (handle d r)) \<le> 1"
    and "uses_session (snd r) \<Longrightarrow> length (open_sessions (handle d r)) = 1"
    and "length (open_sessions d) = 1 \<Longrightarrow> length (open_sessions (handle d r)) = 1"
proof -
  have g: "length (open_sessions (snd (getCurrentSession d now))) = 1" for now
    by (simp add: getCurrentSession_one [OF assms])
  have c: "length (open_sessions (snd (closeSession d now))) = 1" for now
    by (simp add: closeSession_open [OF assms])
  show "uses_session (snd r) \<Longrightarrow> length (open_sessions (handle d r)) = 1"
    by (simp add: handle_sessions g c split: request.splits)
  show "length (open_sessions d) = 1 \<Longrightarrow> length (open_sessions (handle d r)) = 1"
    by (simp add: handle_sessions g c split: request.splits)
  show "length (open_sessions (handle d r)) \<le> 1"
    using assms by (simp add: handle_sessions g c split: request.splits)
qed

lemma run_open:
  assumes "length (open_sessions d) \<le> 1"
  shows "length (open_sessions (run d reqs)) \<le> 1
       \<and> (length (open_sessions d) = 1 \<or> list_ex (\<lambda>r. uses_session (snd r)) reqs \<longrightarrow>
            length (open_sessions (run d reqs)) = 1)"
  using assms
proof (induction reqs arbitrary: d)
  case Nil
  then show ?case by (simp add: run_def)
next
  case (Cons r reqs)
  note h = handle_open [OF Cons.prems, of r]
  from Cons.IH [OF h(1)] h(2) h(3) show ?case
    by (auto simp: run_def)
qed

text \<open>
  C3. Let at most one session be open (as in the empty database). After any sequence
  of requests of which at least one uses the session (\<open>getCurrentSession\<close>,
  \<open>closeSession\<close>, a movement or a sale), exactly one session is open; so it is after
  each further request. \<open>closeSession\<close> answers with the id of the session that was
  current and the id of a new one, which differ; after it the only open session is the
  new one, started now; the rows of the closed id exist and all are closed with the end
  time now; and \<open>getCurrentSession\<close> then returns the new session and changes nothing.
\<close>

theorem one_open_session:
  fixes d :: db and now :: nat
  defines "c \<equiv> closeSession d now"
  assumes "length (open_sessions d) \<le> 1"
  shows "(list_ex (\<lambda>r. uses_session (snd r)) reqs \<longrightarrow> length (open_sessions (run d reqs)) = 1)
       \<and> length (open_sessions (snd (getCurrentSession d now))) = 1
       \<and> fst (fst c) = s_id (fst (getCurrentSession d now))
       \<and> fst (fst c) \<noteq> snd (fst c)
       \<and> open_sessions (snd c) =
           [\<lparr>s_id = snd (fst c), s_start_time = now, s_end_time = None, s_is_closed = 0\<rparr>]
       \<and> (\<exists>s\<in>set (sessions (snd c)). s_id s = fst (fst c))
       \<and> (\<forall>s\<in>set (sessions (snd c)). s_id s = fst (fst c) \<longrightarrow>
            s_is_closed s = 1 \<and> s_end_time s = Some now)
       \<and> getCurrentSession (snd c) now' =
           (\<lparr>s_id = snd (fst c), s_start_time = now, s_end_time = None, s_is_closed = 0\<rparr>, snd c)"
proof -
  note a = assms(2)
  have 1: "list_ex (\<lambda>r. uses_session (snd r)) reqs \<longrightarrow> length (open_sessions (run d reqs)) = 1"
    using run_open [OF a, of reqs] by simp
  have 2: "length (open_sessions (snd (getCurrentSession d now))) = 1"
    by (simp add: getCurrentSession_one [OF a])
  have 3: "fst (fst c) = s_id (fst (getCurrentSession d now))"
    by (simp add: c_def closeSession_unfold)
  have 4: "fst (fst c) \<noteq> snd (fst c)"
    using closeSession_ids [OF a, of now] by (simp add: c_def)
  note 5 = closeSession_open [OF a, of now, folded c_def]
  note 6 = closeSession_closed [OF a, of now, folded c_def]
  note 7 = getCurrentSession_after_close [OF a, of now now', folded c_def]
  show ?thesis
    by (intro conjI) (rule 1 2 3 4 5 6 [THEN conjunct1] 6 [THEN conjunct2] 7)+
qed

theorem one_open_session_witness:
  "length (open_sessions empty_db) \<le> 1
   \<and> list_ex (\<lambda>r. uses_session (snd r))
        [(1::nat, CloseSession), (2, CloseSession), (3, CloseSession), (4, CloseSession)]
   \<and> length (open_sessions fifth_session_open) = 1
   \<and> length (open_sessions (snd (getCurrentSession empty_db 1))) = 1
   \<and> fst (closeSession fifth_session_open 9) = (5, 6)
   \<and> open_sessions (snd (closeSession fifth_session_open 9)) =
        [\<lparr>s_id = 6, s_start_time = 9, s_end_time = None, s_is_closed = 0\<rparr>]
   \<and> sessions (snd (closeSession fifth_session_open 9)) =
        [\<lparr>s_id = 1, s_start_time = 1, s_end_time = Some 1, s_is_closed = 1\<rparr>,
         \<lparr>s_id = 2, s_start_time = 1, s_end_time = Some 2, s_is_closed = 1\<rparr>,
         \<lparr>s_id = 3, s_start_time = 2, s_end_time = Some 3, s_is_closed = 1\<rparr>,
         \<lparr>s_id = 4, s_start_time = 3, s_end_time = Some 4, s_is_closed = 1\<rparr>,
         \<lparr>s_id = 5, s_start_time = 4, s_end_time = Some 9, s_is_closed = 1\<rparr>,
         \<lparr>s_id = 6, s_start_time = 9, s_end_time = None, s_is_closed = 0\<rparr>]
   \<and> sessions (snd (closeSession fifth_session_open 9)) ! 4 \<in>
        set (sessions (snd (closeSession fifth_session_open 9)))
   \<and> s_id (sessions (snd (closeSession fifth_session_open 9)) ! 4) = 5
   \<and> s_is_closed (sessions (snd (closeSession fifth_session_open 9)) ! 4) = 1
   \<and> s_end_time (sessions (snd (closeSession fifth_session_open 9)) ! 4) = Some 9
   \<and> s_id (fst (getCurrentSession (snd (closeSession fifth_session_open 9)) 10)) = 6
   \<and> snd (getCurrentSession (snd (closeSession fifth_session_open 9)) 10) =
        snd (closeSession fifth_session_open 9)"
proof -
  let ?reqs = "[(1::nat, CloseSession), (2, CloseSession), (3, CloseSession), (4, CloseSession)]"
  have h0: "length (open_sessions empty_db) \<le> 1"
    by (simp add: open_sessions_def empty_db_def)
  have h5: "length (open_sessions fifth_session_open) \<le> 1"
    by (simp add: open_sessions_def fifth_session_open_eq)
  have u: "list_ex (\<lambda>r. uses_session (snd r)) ?reqs"
    by simp
  have c: "fst (closeSession fifth_session_open 9) = (5, 6)"
    by (simp add: closeSession_unfold getCurrentSession_def fifth_session_open_eq next_rowid_def)
  have ss: "sessions (snd (closeSession fifth_session_open 9)) =
        [\<lparr>s_id = 1, s_start_time = 1, s_end_time = Some 1, s_is_closed = 1\<rparr>,
         \<lparr>s_id = 2, s_start_time = 1, s_end_time = Some 2, s_is_closed = 1\<rparr>,
         \<lparr>s_id = 3, s_start_time = 2, s_end_time = Some 3, s_is_closed = 1\<rparr>,
         \<lparr>s_id = 4, s_start_time = 3, s_end_time = Some 4, s_is_closed = 1\<rparr>,
         \<lparr>s_id = 5, s_start_time = 4, s_end_time = Some 9, s_is_closed = 1\<rparr>,
         \<lparr>s_id = 6, s_start_time = 9, s_end_time = None, s_is_closed = 0\<rparr>]"
    by (simp add: closeSession_unfold getCurrentSession_def fifth_session_open_eq next_rowid_def)
  have l: "length (sessions (snd (closeSession fifth_session_open 9))) = 6"
    by (simp add: closeSession_unfold getCurrentSession_def fifth_session_open_eq)
  then have m: "sessions (snd (closeSession fifth_session_open 9)) ! 4 \<in>
        set (sessions (snd (closeSession fifth_session_open 9)))"
    by simp
  have i: "s_id (sessions (snd (closeSession fifth_session_open 9)) ! 4) = 5"
    by (simp add: closeSession_unfold getCurrentSession_def fifth_session_open_eq)
  note t0 = one_open_session [OF h0, of ?reqs 1 1]
  note t5 = one_open_session [OF h5, of "[]" 9 10]
  from t0 u have a: "length (open_sessions fifth_session_open) = 1
      \<and> length (open_sessions (snd (getCurrentSession empty_db 1))) = 1"
    by (simp add: fifth_session_open_def)
  from t5 c have b: "open_sessions (snd (closeSession fifth_session_open 9)) =
        [\<lparr>s_id = 6, s_start_time = 9, s_end_time = None, s_is_closed = 0\<rparr>]
   \<and> s_id (fst (getCurrentSession (snd (closeSession fifth_session_open 9)) 10)) = 6
   \<and> snd (getCurrentSession (snd (closeSession fifth_session_open 9)) 10) =
        snd (closeSession fifth_session_open 9)"
    by simp
  from t5 have "\<forall>s\<in>set (sessions (snd (closeSession fifth_session_open 9))).
      s_id s = fst (fst (closeSession fifth_session_open 9)) \<longrightarrow>
        s_is_closed s = 1 \<and> s_end_time s = Some 9"
    by (elim conjE)
  from this [rule_format, OF m] i c
  have e: "s_is_closed (sessions (snd (closeSession fifth_session_open 9)) ! 4) = 1
     \<and> s_end_time (sessions (snd (closeSession fifth_session_open 9)) ! 4) = Some 9"
    by simp
  from h0 u a c b ss m i e show ?thesis
    by (elim conjE) (intro conjI)
qed

end
